theory Spec2Isabelle
  imports Main "HOL-Library.Word"
begin

unbundle bit_operations_syntax

section \<open>Shared vocabulary: error numbers, logging, the operating system\<close>

text \<open>
  The program is written against POSIX. Every system call goes through a kernel
  function \<open>K\<close> that is a parameter of the model: it maps a call and the state of the
  world to a reply and the next state of the world. The general theorems hold for every
  such kernel; the concrete runs use the small reference kernels defined further down.
\<close>

type_synonym ft_uoff = "64 word"
type_synonym ft_size = "64 word"
type_synonym ft_mode = "32 word"
type_synonym byte = "8 word"

text \<open>The error numbers the sources name, and the other ones a failing call can leave in
  \<open>errno\<close>. The numeric values are those of Linux; every one is positive.\<close>

datatype errno =
    EPERM | ENOENT | EINTR | EIO | EBADF | ENOMEM | EACCES | EFAULT | EEXIST | EXDEV
  | ENOTDIR | EISDIR | EINVAL | ENOSPC | EOVERFLOW | EOPNOTSUPP | EISCONN | ENOTCONN

fun errno_code :: "errno \<Rightarrow> int" where
  "errno_code EPERM = 1"
| "errno_code ENOENT = 2"
| "errno_code EINTR = 4"
| "errno_code EIO = 5"
| "errno_code EBADF = 9"
| "errno_code ENOMEM = 12"
| "errno_code EACCES = 13"
| "errno_code EFAULT = 14"
| "errno_code EEXIST = 17"
| "errno_code EXDEV = 18"
| "errno_code ENOTDIR = 20"
| "errno_code EISDIR = 21"
| "errno_code EINVAL = 22"
| "errno_code ENOSPC = 28"
| "errno_code EOVERFLOW = 75"
| "errno_code EOPNOTSUPP = 95"
| "errno_code EISCONN = 106"
| "errno_code ENOTCONN = 107"

text \<open>File modes (\<open>mode_t\<close>, 32 bits) and the file-type tests of \<open>sys/stat.h\<close>.\<close>

definition S_IFMT :: ft_mode where "S_IFMT = 0xF000"
definition S_IFIFO :: ft_mode where "S_IFIFO = 0x1000"
definition S_IFCHR :: ft_mode where "S_IFCHR = 0x2000"
definition S_IFDIR :: ft_mode where "S_IFDIR = 0x4000"
definition S_IFBLK :: ft_mode where "S_IFBLK = 0x6000"
definition S_IFREG :: ft_mode where "S_IFREG = 0x8000"
definition S_IFLNK :: ft_mode where "S_IFLNK = 0xA000"
definition S_IFSOCK :: ft_mode where "S_IFSOCK = 0xC000"

definition S_ISDIR :: "ft_mode \<Rightarrow> bool" where "S_ISDIR m = (m AND S_IFMT = S_IFDIR)"
definition S_ISREG :: "ft_mode \<Rightarrow> bool" where "S_ISREG m = (m AND S_IFMT = S_IFREG)"
definition S_ISLNK :: "ft_mode \<Rightarrow> bool" where "S_ISLNK m = (m AND S_IFMT = S_IFLNK)"
definition S_ISCHR :: "ft_mode \<Rightarrow> bool" where "S_ISCHR m = (m AND S_IFMT = S_IFCHR)"
definition S_ISBLK :: "ft_mode \<Rightarrow> bool" where "S_ISBLK m = (m AND S_IFMT = S_IFBLK)"
definition S_ISFIFO :: "ft_mode \<Rightarrow> bool" where "S_ISFIFO m = (m AND S_IFMT = S_IFIFO)"
definition S_ISSOCK :: "ft_mode \<Rightarrow> bool" where "S_ISSOCK m = (m AND S_IFMT = S_IFSOCK)"

text \<open>The flags of \<open>open\<close> and \<open>mmap\<close> the sources use, with their Linux values.\<close>

definition O_RDONLY :: "32 word" where "O_RDONLY = 0"
definition O_WRONLY :: "32 word" where "O_WRONLY = 1"
definition O_RDWR :: "32 word" where "O_RDWR = 2"
definition O_CREAT :: "32 word" where "O_CREAT = 0x40"
definition O_TRUNC :: "32 word" where "O_TRUNC = 0x200"

definition PROT_NONE :: "32 word" where "PROT_NONE = 0"
definition PROT_READ :: "32 word" where "PROT_READ = 1"
definition PROT_WRITE :: "32 word" where "PROT_WRITE = 2"
definition MAP_SHARED :: "32 word" where "MAP_SHARED = 1"
definition MAP_PRIVATE :: "32 word" where "MAP_PRIVATE = 2"
definition MAP_FIXED :: "32 word" where "MAP_FIXED = 0x10"
definition MAP_ANONYMOUS :: "32 word" where "MAP_ANONYMOUS = 0x20"

text \<open>The fields of \<open>struct stat\<close> the sources read.\<close>

record ft_stat =
  st_mode :: ft_mode
  st_rdev :: nat
  st_uid :: nat
  st_gid :: nat
  st_atime :: int
  st_mtime :: int

text \<open>An extent of the interval algebra, with the slot \<open>user_data\<close> in which the I/O object
  keeps the address an extent is mapped at.\<close>

record ft_extent =
  physical :: ft_uoff
  logical :: ft_uoff
  ext_length :: ft_uoff
  user_data :: ft_uoff

type_synonym timeval = "int \<times> int"  \<comment> \<open>\<open>tv_sec\<close>, \<open>tv_usec\<close>\<close>

text \<open>
  The calls the program makes, with the arguments it passes, in the order of the C
  prototypes. In particular \<open>Symlink a b\<close> is \<open>symlink(a, b)\<close>: by POSIX the first argument
  is the string the new link will contain and the second the path at which the link is
  created. \<open>Opendir\<close> and \<open>Readdir\<close> stand for \<open>fm_io_posix_dir::open\<close> and \<open>::next\<close>,
  \<open>Lseek\<close> and \<open>Write_all\<close> for \<open>ff_posix_lseek\<close> and \<open>ff_posix_write\<close> (seek to an absolute
  offset; write a whole buffer or fail), \<open>Blkdev_size\<close> and \<open>Fstat_size\<close> for
  \<open>ff_posix_blkdev_size\<close> and \<open>ff_posix_size\<close>, \<open>Load_extents\<close> for \<open>ff_load_extents_file\<close>;
  these wrappers are not among the sources. \<open>Fopen\<close> opens for reading.
\<close>

datatype syscall =
    Rename string string
  | Umask ft_mode
  | Lstat string
  | Mknod string ft_mode nat
  | Mkfifo string ft_mode
  | Readlink string nat
  | Symlink string string
  | Unlink string
  | Open string "32 word" ft_mode
  | Close int
  | Read int nat
  | Write int "byte list"
  | Utimes string timeval timeval
  | Lchown string nat nat
  | Chmod string ft_mode
  | Mkdir string ft_mode
  | Rmdir string
  | Opendir string
  | Readdir string
  | Mmap ft_size ft_size "32 word" "32 word" int ft_uoff
  | Munmap ft_size ft_size
  | Posix_fallocate int ft_uoff ft_uoff
  | Lseek int ft_uoff
  | Write_all int "byte list"
  | Blkdev_size int
  | Fstat_size int
  | Fopen string
  | Load_extents int
  | Fclose int

text \<open>What a call answers: failure with an error number (the C function returns \<open>-1\<close>, or
  the error itself for \<open>posix_fallocate\<close> and the wrappers, and \<open>errno\<close> is set), or success
  with the value the call yields.\<close>

datatype reply =
    Fail errno
  | Done
  | Ret_fd nat
  | Ret_count nat
  | Ret_bytes "byte list"
  | Ret_stat ft_stat
  | Ret_str string
  | Ret_dirent "string option"
  | Ret_addr ft_size
  | Ret_size ft_uoff
  | Ret_extents "ft_extent list" ft_uoff

type_synonym 'w kernel = "syscall \<Rightarrow> 'w \<Rightarrow> reply \<times> 'w"

fun is_fail :: "reply \<Rightarrow> bool" where
  "is_fail (Fail e) = True"
| "is_fail r = False"

text \<open>The value the C caller sees. A reply of another shape than the call's own is read as
  the zero value of the shape asked for.\<close>

fun the_fd :: "reply \<Rightarrow> int" where
  "the_fd (Fail e) = -1"
| "the_fd (Ret_fd n) = int n"
| "the_fd r = 0"

fun the_count :: "reply \<Rightarrow> int" where
  "the_count (Fail e) = -1"
| "the_count (Ret_count n) = int n"
| "the_count r = 0"

fun the_bytes :: "reply \<Rightarrow> byte list" where
  "the_bytes (Ret_bytes bs) = bs"
| "the_bytes r = []"

fun the_str :: "reply \<Rightarrow> string" where
  "the_str (Ret_str x) = x"
| "the_str r = []"

fun the_stat :: "reply \<Rightarrow> ft_stat" where
  "the_stat (Ret_stat st) = st"
| "the_stat r = \<lparr> st_mode = 0, st_rdev = 0, st_uid = 0, st_gid = 0, st_atime = 0, st_mtime = 0 \<rparr>"

fun the_dirent :: "reply \<Rightarrow> string option" where
  "the_dirent (Ret_dirent d) = d"
| "the_dirent r = None"

fun the_addr :: "reply \<Rightarrow> ft_size" where
  "the_addr (Ret_addr a) = a"
| "the_addr r = 0"

fun the_size :: "reply \<Rightarrow> ft_uoff" where
  "the_size (Ret_size n) = n"
| "the_size r = 0"

fun the_extents :: "reply \<Rightarrow> ft_extent list \<times> ft_uoff" where
  "the_extents (Ret_extents v bitmask) = (v, bitmask)"
| "the_extents r = ([], 0)"

text \<open>The error number a failed call leaves in \<open>errno\<close>; 0 for a call that did not fail.\<close>

fun fail_code :: "reply \<Rightarrow> int" where
  "fail_code (Fail e) = errno_code e"
| "fail_code r = 0"

text \<open>The running process: what it did so far (system calls and log lines, oldest first),
  the C variable \<open>errno\<close>, and the world outside.\<close>

datatype log_level = FC_TRACE | FC_DEBUG | FC_INFO | FC_NOTICE | FC_WARN | FC_ERROR | FC_FATAL

datatype event = Sys syscall | Log log_level int

record 'w proc =
  trace :: "event list"
  cur_errno :: int
  world :: 'w

definition sys :: "'w kernel \<Rightarrow> syscall \<Rightarrow> 'w proc \<Rightarrow> reply \<times> 'w proc" where
  "sys K c s =
     (case K c (world s) of
        (r, w') \<Rightarrow>
          (r, s\<lparr> trace := trace s @ [Sys c],
                 cur_errno := (case r of Fail e \<Rightarrow> errno_code e | _ \<Rightarrow> cur_errno s),
                 world := w' \<rparr>))"

text \<open>A call whose caller reads the error it returns and never \<open>errno\<close>:
  \<open>posix_fallocate\<close>, which leaves \<open>errno\<close> alone, and the wrappers \<open>ff_posix_lseek\<close>,
  \<open>ff_posix_write\<close> and \<open>ff_load_extents_file\<close>.\<close>

definition sys_ret :: "'w kernel \<Rightarrow> syscall \<Rightarrow> 'w proc \<Rightarrow> reply \<times> 'w proc" where
  "sys_ret K c s =
     (case K c (world s) of (r, w') \<Rightarrow> (r, s\<lparr> trace := trace s @ [Sys c], world := w' \<rparr>))"

text \<open>
  Modelled from the spec: the logger \<open>ff_log(level, err, fmt, ...)\<close> (log.cc) is not among
  the sources. The spec has every operation return success or an error, failures of the
  listed calls being fatal or warnings only; the callers assign the logger's result to
  \<open>err\<close> and treat nonzero as failure, and where they set an error by hand they negate it
  with the comment "mark error as reported". So the logger records the line and returns
  the error it was given, negated when positive; 0 stays 0.
\<close>

definition ff_log :: "log_level \<Rightarrow> int \<Rightarrow> 'w proc \<Rightarrow> int \<times> 'w proc" where
  "ff_log lvl err s =
     ((if 0 < err then - err else err), s\<lparr> trace := trace s @ [Log lvl err] \<rparr>)"

definition syscalls_of :: "event list \<Rightarrow> syscall list" where
  "syscalls_of tr = concat (map (\<lambda>e. case e of Sys c \<Rightarrow> [c] | Log l x \<Rightarrow> []) tr)"

section \<open>The tree mover (fm_io_posix)\<close>

text \<open>The mover's own state: the two roots, and the flag \<open>simulate_run()\<close> of its base
  class.\<close>

record fm_io_posix =
  source_root :: string
  target_root :: string
  simulate_run :: bool

definition PATH_MAX :: nat where "PATH_MAX = 4096"

definition fm_io_posix_is_dir :: "ft_stat \<Rightarrow> bool" where
  "fm_io_posix_is_dir st = S_ISDIR (st_mode st)"

definition fm_io_posix_is_file :: "ft_stat \<Rightarrow> bool" where
  "fm_io_posix_is_file st = S_ISREG (st_mode st)"

text \<open>\<open>fm_io_posix::stat\<close>: the error code and the \<open>stat\<close> buffer.\<close>

definition stat :: "'w kernel \<Rightarrow> string \<Rightarrow> 'w proc \<Rightarrow> (int \<times> ft_stat) \<times> 'w proc" where
  "stat K path s =
     (case sys K (Lstat path) s of
        (r, s1) \<Rightarrow>
          if is_fail r then
            (case ff_log FC_ERROR (cur_errno s1) s1 of (err, s2) \<Rightarrow> ((err, the_stat r), s2))
          else ((0, the_stat r), s1))"

definition copy_stat :: "'w kernel \<Rightarrow> string \<Rightarrow> ft_stat \<Rightarrow> 'w proc \<Rightarrow> int \<times> 'w proc" where
  "copy_stat K target st s =
     (case sys K (Utimes target (st_atime st, 0) (st_mtime st, 0)) s of
        (r1, s1) \<Rightarrow>
          let s2 = (if is_fail r1 then snd (ff_log FC_WARN (cur_errno s1) s1) else s1) in
          (case sys K (Lchown target (st_uid st) (st_gid st)) s2 of
             (r2, s3) \<Rightarrow>
               if is_fail r2 then ff_log FC_ERROR (cur_errno s3) s3
               else if \<not> S_ISLNK (st_mode st) then
                 (case sys K (Chmod target (st_mode st)) s3 of
                    (r3, s4) \<Rightarrow>
                      if is_fail r3 then ff_log FC_ERROR (cur_errno s4) s4 else (0, s4))
               else (0, s3)))"

definition move_rename ::
  "'w kernel \<Rightarrow> fm_io_posix \<Rightarrow> string \<Rightarrow> string \<Rightarrow> 'w proc \<Rightarrow> int \<times> 'w proc" where
  "move_rename K io source target s =
     (if simulate_run io then (errno_code EXDEV, s)
      else
        (case sys K (Rename source target) s of
           (r, s1) \<Rightarrow>
             if is_fail r then (cur_errno s1, s1)
             else (0, snd (ff_log FC_TRACE 0 s1))))"

text \<open>The tail shared by the branches of \<open>move_special\<close> that did not \<open>break\<close>: \<open>copy_stat\<close>,
  and after the \<open>do\<close> block the removal of the source when no error is pending.\<close>

definition unlink_source :: "'w kernel \<Rightarrow> string \<Rightarrow> int \<times> 'w proc \<Rightarrow> int \<times> 'w proc" where
  "unlink_source K source es =
     (case es of
        (err, s) \<Rightarrow>
          if err = 0 then
            (case sys K (Unlink source) s of
               (r, s1) \<Rightarrow> if is_fail r then ff_log FC_ERROR (cur_errno s1) s1 else (0, s1))
          else (err, s))"

definition move_special ::
  "'w kernel \<Rightarrow> fm_io_posix \<Rightarrow> string \<Rightarrow> ft_stat \<Rightarrow> string \<Rightarrow> 'w proc \<Rightarrow> int \<times> 'w proc" where
  "move_special K io source st target s =
     (let s0 = snd (ff_log FC_TRACE 0 s); m = st_mode st in
      if simulate_run io then (0, s0)
      else unlink_source K source
        (if S_ISCHR m \<or> S_ISBLK m \<or> S_ISSOCK m then
           (case sys K (Mknod target ((m OR 0x180) AND NOT 0x3F) (st_rdev st)) s0 of
              (r, s1) \<Rightarrow>
                if is_fail r then
                  (if \<not> S_ISSOCK m then ff_log FC_ERROR (cur_errno s1) s1
                   else copy_stat K target st (snd (ff_log FC_WARN (cur_errno s1) s1)))
                else copy_stat K target st s1)
         else if S_ISFIFO m then
           (case sys K (Mkfifo target 0x180) s0 of
              (r, s1) \<Rightarrow>
                if is_fail r then ff_log FC_ERROR (cur_errno s1) s1
                else copy_stat K target st s1)
         else if S_ISLNK m then
           (case sys K (Readlink source PATH_MAX) s0 of
              (r, s1) \<Rightarrow>
                if is_fail r then ff_log FC_ERROR (cur_errno s1) s1
                else
                  (let link_to = the_str r in
                   case sys K (Symlink target link_to) s1 of
                     (r2, s2) \<Rightarrow>
                       if is_fail r2 then ff_log FC_ERROR (cur_errno s2) s2
                       else copy_stat K target st s2))
         else (- errno_code EOPNOTSUPP, snd (ff_log FC_ERROR 0 s0))))"

text \<open>The three loops of \<open>copy_stream\<close>, innermost first. Each may go on for as long as the
  kernel answers accordingly, so each takes fuel and gives \<open>None\<close> when it runs out.
  \<open>write_retry\<close> is \<open>while ((chunk = write(...)) == -1 && errno == EINTR);\<close> and yields
  \<open>chunk\<close>; \<open>send_all\<close> is \<open>while (sent < got)\<close> and yields \<open>err\<close>.\<close>

fun write_retry :: "nat \<Rightarrow> 'w kernel \<Rightarrow> int \<Rightarrow> byte list \<Rightarrow> 'w proc \<Rightarrow> (int \<times> 'w proc) option" where
  "write_retry 0 K out_fd buf s = None"
| "write_retry (Suc n) K out_fd buf s =
     (case sys K (Write out_fd buf) s of
        (r, s1) \<Rightarrow>
          if the_count r = -1 \<and> cur_errno s1 = errno_code EINTR then write_retry n K out_fd buf s1
          else Some (the_count r, s1))"

fun send_all ::
  "nat \<Rightarrow> 'w kernel \<Rightarrow> int \<Rightarrow> byte list \<Rightarrow> nat \<Rightarrow> 'w proc \<Rightarrow> (int \<times> 'w proc) option" where
  "send_all 0 K out_fd buf sent s = None"
| "send_all (Suc n) K out_fd buf sent s =
     (if sent < length buf then
        (case write_retry n K out_fd (drop sent buf) s of
           None \<Rightarrow> None
         | Some (chunk, s1) \<Rightarrow>
             if chunk \<le> 0 then Some (ff_log FC_ERROR (cur_errno s1) s1)
             else send_all n K out_fd buf (sent + nat chunk) s1)
      else Some (0, s))"

fun copy_stream ::
  "nat \<Rightarrow> 'w kernel \<Rightarrow> int \<Rightarrow> int \<Rightarrow> 'w proc \<Rightarrow> (int \<times> 'w proc) option" where
  "copy_stream 0 K in_fd out_fd s = None"
| "copy_stream (Suc n) K in_fd out_fd s =
     (case sys K (Read in_fd 65536) s of
        (r, s1) \<Rightarrow>
          if is_fail r then Some (ff_log FC_ERROR (cur_errno s1) s1)
          else if the_bytes r = [] then Some (0, s1)
          else
            (case send_all n K out_fd (the_bytes r) 0 s1 of
               None \<Rightarrow> None
             | Some (err, s2) \<Rightarrow>
                 if err = 0 then copy_stream n K in_fd out_fd s2 else Some (err, s2)))"

definition move_file ::
  "nat \<Rightarrow> 'w kernel \<Rightarrow> fm_io_posix \<Rightarrow> string \<Rightarrow> ft_stat \<Rightarrow> string \<Rightarrow> 'w proc
   \<Rightarrow> (int \<times> 'w proc) option" where
  "move_file fuel K io source st target s =
     (let s0 = snd (ff_log FC_TRACE 0 s) in
      if simulate_run io then Some (0, s0)
      else
        (case sys K (Open source O_RDONLY 0) s0 of
           (r_in, s1) \<Rightarrow>
             let in_fd = the_fd r_in;
                 (err1, s2) = (if in_fd < 0 then ff_log FC_ERROR (cur_errno s1) s1 else (0, s1))
             in
             (case sys K (Open target (O_CREAT OR O_WRONLY) (st_mode st)) s2 of
                (r_out, s3) \<Rightarrow>
                  let out_fd = the_fd r_out;
                      (err2, s4) =
                        (if out_fd < 0 then ff_log FC_ERROR (cur_errno s3) s3 else (err1, s3))
                  in
                  (case (if err2 = 0 then copy_stream fuel K in_fd out_fd s4
                         else Some (err2, s4)) of
                     None \<Rightarrow> None
                   | Some (err3, s5) \<Rightarrow>
                       let s6 = (if in_fd \<ge> 0 then snd (sys K (Close in_fd) s5) else s5);
                           s7 = (if out_fd \<ge> 0 then snd (sys K (Close out_fd) s6) else s6)
                       in
                       if err3 = 0 then
                         (case copy_stat K target st s7 of
                            (err4, s8) \<Rightarrow>
                              if err4 \<noteq> 0 then Some (err4, s8)
                              else
                                (case sys K (Unlink source) s8 of
                                   (r, s9) \<Rightarrow>
                                     if is_fail r then Some (ff_log FC_ERROR (cur_errno s9) s9)
                                     else Some (0, s9)))
                       else Some (err3, s7)))))"

definition create_dir ::
  "'w kernel \<Rightarrow> fm_io_posix \<Rightarrow> string \<Rightarrow> ft_stat \<Rightarrow> 'w proc \<Rightarrow> int \<times> 'w proc" where
  "create_dir K io path st s =
     (let s0 = snd (ff_log FC_TRACE 0 s) in
      if simulate_run io then (0, s0)
      else
        (case sys K (Mkdir path 0x1C0) s0 of
           (r, s1) \<Rightarrow> if is_fail r then ff_log FC_ERROR (cur_errno s1) s1 else (0, s1)))"

definition remove_dir :: "'w kernel \<Rightarrow> fm_io_posix \<Rightarrow> string \<Rightarrow> 'w proc \<Rightarrow> int \<times> 'w proc" where
  "remove_dir K io path s =
     (let s0 = snd (ff_log FC_TRACE 0 s) in
      if simulate_run io then (0, s0)
      else
        (case sys K (Rmdir path) s0 of
           (r, s1) \<Rightarrow> if is_fail r then ff_log FC_ERROR (cur_errno s1) s1 else (0, s1)))"

text \<open>
  \<open>move(source_path, target_path)\<close> and its loop over the directory's entries
  (\<open>move_children\<close>). The recursion follows the directory tree the kernel reports, so it
  takes fuel too. The directory reader \<open>fm_io_posix_dir\<close> is not among the sources: its
  \<open>open\<close> and \<open>next\<close> are the calls \<open>Opendir\<close> and \<open>Readdir\<close>, an error of either is
  taken as logged and returned like the one of \<open>stat\<close>, and \<open>Ret_dirent None\<close> is the
  \<open>NULL\<close> entry that ends the directory.
\<close>

fun move ::
  "nat \<Rightarrow> 'w kernel \<Rightarrow> fm_io_posix \<Rightarrow> string \<Rightarrow> string \<Rightarrow> 'w proc \<Rightarrow> (int \<times> 'w proc) option"
and move_children ::
  "nat \<Rightarrow> 'w kernel \<Rightarrow> fm_io_posix \<Rightarrow> string \<Rightarrow> string \<Rightarrow> 'w proc \<Rightarrow> (int \<times> 'w proc) option"
where
  "move 0 K io source_path target_path s = None"
| "move (Suc n) K io source_path target_path s =
     (case stat K source_path (snd (ff_log FC_DEBUG 0 s)) of
        ((err, st), s1) \<Rightarrow>
          if err \<noteq> 0 then Some (err, s1)
          else if fm_io_posix_is_file st then move_file n K io source_path st target_path s1
          else if \<not> fm_io_posix_is_dir st then Some (move_special K io source_path st target_path s1)
          else
            (case sys K (Opendir source_path) s1 of
               (r, s2) \<Rightarrow>
                 if is_fail r then Some (ff_log FC_ERROR (cur_errno s2) s2)
                 else
                   (case create_dir K io target_path st s2 of
                      (err2, s3) \<Rightarrow>
                        if err2 \<noteq> 0 then Some (err2, s3)
                        else
                          (case move_children n K io source_path target_path s3 of
                             None \<Rightarrow> None
                           | Some (err3, s4) \<Rightarrow>
                               if err3 \<noteq> 0 then Some (err3, s4)
                               else
                                 (case copy_stat K target_path st s4 of
                                    (err4, s5) \<Rightarrow>
                                      if err4 \<noteq> 0 then Some (err4, s5)
                                      else Some (remove_dir K io source_path s5))))))"
| "move_children 0 K io source_path target_path s = None"
| "move_children (Suc n) K io source_path target_path s =
     (case sys K (Readdir source_path) s of
        (r, s1) \<Rightarrow>
          if is_fail r then Some (ff_log FC_ERROR (cur_errno s1) s1)
          else
            (case the_dirent r of
               None \<Rightarrow> Some (0, s1)
             | Some d_name \<Rightarrow>
                 if d_name = ''.'' \<or> d_name = ''..'' then
                   move_children n K io source_path target_path s1
                 else
                   (case move n K io (source_path @ ''/'' @ d_name) (target_path @ ''/'' @ d_name) s1 of
                      None \<Rightarrow> None
                    | Some (err, s2) \<Rightarrow>
                        if err \<noteq> 0 then Some (err, s2)
                        else move_children n K io source_path target_path s2)))"

text \<open>\<open>move()\<close> without arguments, the entry point.\<close>

definition move_roots :: "nat \<Rightarrow> 'w kernel \<Rightarrow> fm_io_posix \<Rightarrow> 'w proc \<Rightarrow> (int \<times> 'w proc) option" where
  "move_roots fuel K io s =
     (case move_rename K io (source_root io) (target_root io) s of
        (err, s1) \<Rightarrow>
          if err = 0 then Some (0, s1)
          else move fuel K io (source_root io) (target_root io) (snd (sys K (Umask 0) s1)))"

subsection \<open>A reference kernel for the mover's calls\<close>

text \<open>
  A small file system to run the mover on: a flat name space from paths to nodes, open
  descriptors with their offsets, and a read position per directory. It checks what the
  calls of the mover depend on (whether the path exists and what kind of node it is) and
  nothing else; no permissions, no parent directories. Of the remapper's calls it knows
  \<open>posix_fallocate\<close>, which extends the file with zero bytes, and \<open>mmap\<close> and \<open>munmap\<close>
  without keeping track of the address space: an anonymous mapping is placed at a fixed
  address, and a \<open>MAP_FIXED\<close> mapping of a file succeeds at the address asked for unless
  the file offset is not a multiple of the page size 4096 (\<open>EINVAL\<close>) or the descriptor is
  not open (\<open>EBADF\<close>). The calls of the hole zeroer fail with \<open>EINVAL\<close>.
\<close>

record node =
  n_stat :: ft_stat
  n_data :: "byte list"
  n_link :: string
  n_names :: "string list"

record fs =
  nodes :: "string \<Rightarrow> node option"
  fds :: "nat \<Rightarrow> (string \<times> nat) option"
  next_fd :: nat
  cursors :: "string \<Rightarrow> nat"

definition new_node :: "ft_mode \<Rightarrow> node" where
  "new_node m =
     \<lparr> n_stat = \<lparr> st_mode = m, st_rdev = 0, st_uid = 0, st_gid = 0, st_atime = 0, st_mtime = 0 \<rparr>,
       n_data = [], n_link = [], n_names = [] \<rparr>"

definition put_node :: "string \<Rightarrow> node \<Rightarrow> fs \<Rightarrow> fs" where
  "put_node p n w = w\<lparr> nodes := (nodes w)(p \<mapsto> n) \<rparr>"

definition create_node :: "string \<Rightarrow> node \<Rightarrow> fs \<Rightarrow> reply \<times> fs" where
  "create_node p n w =
     (case nodes w p of Some old \<Rightarrow> (Fail EEXIST, w) | None \<Rightarrow> (Done, put_node p n w))"

definition change_stat :: "string \<Rightarrow> (ft_stat \<Rightarrow> ft_stat) \<Rightarrow> fs \<Rightarrow> reply \<times> fs" where
  "change_stat p f w =
     (case nodes w p of
        None \<Rightarrow> (Fail ENOENT, w)
      | Some n \<Rightarrow> (Done, put_node p (n\<lparr> n_stat := f (n_stat n) \<rparr>) w))"

definition open_fd :: "string \<Rightarrow> fs \<Rightarrow> reply \<times> fs" where
  "open_fd p w =
     (Ret_fd (next_fd w), w\<lparr> fds := (fds w)(next_fd w \<mapsto> (p, 0)), next_fd := Suc (next_fd w) \<rparr>)"

fun posix :: "fs kernel" where
  "posix (Rename a b) w =
     (case nodes w a of
        None \<Rightarrow> (Fail ENOENT, w)
      | Some n \<Rightarrow> (Done, w\<lparr> nodes := (nodes w)(a := None, b \<mapsto> n) \<rparr>))"
| "posix (Umask m) w = (Done, w)"
| "posix (Lstat p) w =
     (case nodes w p of None \<Rightarrow> (Fail ENOENT, w) | Some n \<Rightarrow> (Ret_stat (n_stat n), w))"
| "posix (Mknod p m d) w =
     create_node p ((new_node m)\<lparr> n_stat := (n_stat (new_node m))\<lparr> st_rdev := d \<rparr> \<rparr>) w"
| "posix (Mkfifo p m) w = create_node p (new_node (S_IFIFO OR m)) w"
| "posix (Readlink p n) w =
     (case nodes w p of
        None \<Rightarrow> (Fail ENOENT, w)
      | Some nd \<Rightarrow>
          if S_ISLNK (st_mode (n_stat nd)) then (Ret_str (take n (n_link nd)), w)
          else (Fail EINVAL, w))"
| "posix (Symlink content p) w = create_node p ((new_node (S_IFLNK OR 0x1FF))\<lparr> n_link := content \<rparr>) w"
| "posix (Unlink p) w =
     (case nodes w p of
        None \<Rightarrow> (Fail ENOENT, w)
      | Some nd \<Rightarrow>
          if S_ISDIR (st_mode (n_stat nd)) then (Fail EISDIR, w)
          else (Done, w\<lparr> nodes := (nodes w)(p := None) \<rparr>))"
| "posix (Open p fl m) w =
     (case nodes w p of
        None \<Rightarrow>
          if fl AND O_CREAT \<noteq> 0 then open_fd p (put_node p (new_node (S_IFREG OR (m AND 0xFFF))) w)
          else (Fail ENOENT, w)
      | Some nd \<Rightarrow>
          if fl AND O_TRUNC \<noteq> 0 then open_fd p (put_node p (nd\<lparr> n_data := [] \<rparr>) w)
          else open_fd p w)"
| "posix (Close d) w =
     (if 0 \<le> d \<and> fds w (nat d) \<noteq> None then (Done, w\<lparr> fds := (fds w)(nat d := None) \<rparr>)
      else (Fail EBADF, w))"
| "posix (Read d n) w =
     (case (if 0 \<le> d then fds w (nat d) else None) of
        None \<Rightarrow> (Fail EBADF, w)
      | Some (p, off) \<Rightarrow>
          (case nodes w p of
             None \<Rightarrow> (Fail EBADF, w)
           | Some nd \<Rightarrow>
               let bs = take n (drop off (n_data nd))
               in (Ret_bytes bs, w\<lparr> fds := (fds w)(nat d \<mapsto> (p, off + length bs)) \<rparr>)))"
| "posix (Write d bs) w =
     (case (if 0 \<le> d then fds w (nat d) else None) of
        None \<Rightarrow> (Fail EBADF, w)
      | Some (p, off) \<Rightarrow>
          (case nodes w p of
             None \<Rightarrow> (Fail EBADF, w)
           | Some nd \<Rightarrow>
               (Ret_count (length bs),
                (put_node p (nd\<lparr> n_data := take off (n_data nd) @ bs @ drop (off + length bs) (n_data nd) \<rparr>) w)
                  \<lparr> fds := (fds w)(nat d \<mapsto> (p, off + length bs)) \<rparr>)))"
| "posix (Utimes p a m) w = change_stat p (\<lambda>st. st\<lparr> st_atime := fst a, st_mtime := fst m \<rparr>) w"
| "posix (Lchown p u g) w = change_stat p (\<lambda>st. st\<lparr> st_uid := u, st_gid := g \<rparr>) w"
| "posix (Chmod p m) w =
     change_stat p (\<lambda>st. st\<lparr> st_mode := (st_mode st AND S_IFMT) OR (m AND 0xFFF) \<rparr>) w"
| "posix (Mkdir p m) w = create_node p (new_node (S_IFDIR OR m)) w"
| "posix (Rmdir p) w =
     (case nodes w p of
        None \<Rightarrow> (Fail ENOENT, w)
      | Some nd \<Rightarrow>
          if S_ISDIR (st_mode (n_stat nd)) then (Done, w\<lparr> nodes := (nodes w)(p := None) \<rparr>)
          else (Fail ENOTDIR, w))"
| "posix (Opendir p) w =
     (case nodes w p of
        None \<Rightarrow> (Fail ENOENT, w)
      | Some nd \<Rightarrow>
          if S_ISDIR (st_mode (n_stat nd)) then (Done, w\<lparr> cursors := (cursors w)(p := 0) \<rparr>)
          else (Fail ENOTDIR, w))"
| "posix (Readdir p) w =
     (case nodes w p of
        None \<Rightarrow> (Fail EBADF, w)
      | Some nd \<Rightarrow>
          if cursors w p < length (n_names nd) then
            (Ret_dirent (Some (n_names nd ! cursors w p)),
             w\<lparr> cursors := (cursors w)(p := Suc (cursors w p)) \<rparr>)
          else (Ret_dirent None, w))"
| "posix (Mmap a l pr fl d off) w =
     (if fl AND MAP_FIXED = 0 then (Ret_addr 0x7F0000000000, w)
      else if off AND 0xFFF \<noteq> 0 then (Fail EINVAL, w)
      else if 0 \<le> d \<and> fds w (nat d) \<noteq> None then (Ret_addr a, w)
      else (Fail EBADF, w))"
| "posix (Munmap a l) w = (Done, w)"
| "posix (Posix_fallocate d off l) w =
     (case (if 0 \<le> d then fds w (nat d) else None) of
        None \<Rightarrow> (Fail EBADF, w)
      | Some (p, pos) \<Rightarrow>
          (case nodes w p of
             None \<Rightarrow> (Fail EBADF, w)
           | Some nd \<Rightarrow>
               (Done,
                put_node p (nd\<lparr> n_data := n_data nd
                                 @ replicate (unat (off + l) - length (n_data nd)) 0 \<rparr>) w)))"
| "posix (Lseek d off) w = (Fail EINVAL, w)"
| "posix (Write_all d bs) w = (Fail EINVAL, w)"
| "posix (Blkdev_size d) w = (Fail EINVAL, w)"
| "posix (Fstat_size d) w = (Fail EINVAL, w)"
| "posix (Fopen p) w = (Fail EINVAL, w)"
| "posix (Load_extents d) w = (Fail EINVAL, w)"
| "posix (Fclose d) w = (Fail EINVAL, w)"

definition fs_of :: "(string \<times> node) list \<Rightarrow> fs" where
  "fs_of ns = \<lparr> nodes = map_of ns, fds = (\<lambda>_. None), next_fd = 3, cursors = (\<lambda>_. 0) \<rparr>"

definition start :: "'w \<Rightarrow> 'w proc" where
  "start w = \<lparr> trace = [], cur_errno = 0, world = w \<rparr>"

definition node_with :: "ft_mode \<Rightarrow> nat \<Rightarrow> int \<Rightarrow> node" where
  "node_with m uid t =
     (new_node m)\<lparr> n_stat := \<lparr> st_mode = m, st_rdev = 0, st_uid = uid, st_gid = uid,
                                st_atime = t, st_mtime = t \<rparr> \<rparr>"

text \<open>A mover between \<open>/src\<close> and \<open>/dst\<close>, simulating or not.\<close>

definition mover :: "bool \<Rightarrow> fm_io_posix" where
  "mover sim = \<lparr> source_root = ''/src'', target_root = ''/dst'', simulate_run = sim \<rparr>"

text \<open>Worlds to run the mover in. A symbolic link \<open>/src/link\<close> with content \<open>a.txt\<close>,
  owner 1000 and times 77, alone, or beside a regular file that already sits at the
  target's path. A directory \<open>/src\<close> without entries (mode 0755, owner 1000, times 77),
  alone, or beside a directory \<open>/dst\<close> (mode 0700, owner 0, times 5).\<close>

definition a_link :: node where
  "a_link = (node_with (S_IFLNK OR 0x1FF) 1000 77)\<lparr> n_link := ''a.txt'' \<rparr>"

definition link_world :: fs where
  "link_world = fs_of [(''/src/link'', a_link)]"

definition link_world_target :: fs where
  "link_world_target =
     fs_of [(''/src/link'', a_link), (''/dst/link'', node_with (S_IFREG OR 0x1A4) 0 5)]"

definition dir_world :: fs where
  "dir_world = fs_of [(''/src'', node_with (S_IFDIR OR 0x1ED) 1000 77)]"

definition dir_world_target :: fs where
  "dir_world_target =
     fs_of [(''/src'', node_with (S_IFDIR OR 0x1ED) 1000 77),
            (''/dst'', node_with (S_IFDIR OR 0x1C0) 0 5)]"

section \<open>The remapper's I/O object (io/io_posix.cc)\<close>

text \<open>The role indices. Their declaration (io/io.hh) is not among the sources; the values
  are the positions of the roles in the table \<open>ft_io::label\<close>, which the code indexes with
  them: device, loop-file, zero-file, secondary-storage, primary-storage, storage.\<close>

definition FC_DEVICE :: nat where "FC_DEVICE = 0"
definition FC_LOOP_FILE :: nat where "FC_LOOP_FILE = 1"
definition FC_ZERO_FILE :: nat where "FC_ZERO_FILE = 2"
definition FC_FILE_COUNT :: nat where "FC_FILE_COUNT = 3"
definition FC_SECONDARY_STORAGE :: nat where "FC_SECONDARY_STORAGE = 3"
definition FC_PRIMARY_STORAGE :: nat where "FC_PRIMARY_STORAGE = 4"
definition FC_STORAGE :: nat where "FC_STORAGE = 5"

text \<open>The fields of \<open>ft_io_posix\<close> and of its base class that the modelled methods read or
  write. \<open>fd\<close> is the descriptor table, \<open>-1\<close> for a closed slot; \<open>storage_mmap = None\<close>
  stands for \<open>MAP_FAILED\<close>.\<close>

record ft_io_posix =
  fd :: "nat \<Rightarrow> int"
  dev_length :: ft_uoff
  storage_mmap :: "ft_size option"
  storage_mmap_size :: ft_size
  primary_storage :: "ft_extent list"
  secondary_storage :: ft_extent
  job_dir :: string

definition is_open0 :: "ft_io_posix \<Rightarrow> nat \<Rightarrow> bool" where
  "is_open0 io i = (fd io i \<ge> 0)"

text \<open>The loop of \<open>is_open_extents\<close>: it runs \<open>i\<close> over \<open>which\<close> and leaves at the first
  entry for which \<open>!is_open0(which[i]) < 0\<close> holds. The negation is a \<open>bool\<close>, promoted to
  the integer 0 or 1 before the comparison. The result is the final value of \<open>i\<close>.\<close>

fun is_open_extents_loop :: "ft_io_posix \<Rightarrow> nat list \<Rightarrow> nat \<Rightarrow> nat" where
  "is_open_extents_loop io [] i = i"
| "is_open_extents_loop io (w # ws) i =
     (if (of_bool (\<not> is_open0 io w) :: int) < 0 then i
      else is_open_extents_loop io ws (Suc i))"

definition is_open_extents :: "ft_io_posix \<Rightarrow> bool" where
  "is_open_extents io =
     (if dev_length io \<noteq> 0 then
        (let which = [FC_LOOP_FILE, FC_ZERO_FILE]; n = length which
         in is_open_extents_loop io which 0 = n)
      else False)"

text \<open>\<open>read_extents\<close>. The extent reader \<open>ff_read_extents_posix\<close> (io/extent_posix.cc) is not
  among the sources and is the parameter \<open>rd\<close>: from a descriptor, the device length, the
  vector to append to and the bitmask so far it gives an error code, the vector and the
  bitmask. The result is the error code, the two vectors and the caller's bitmask.\<close>

type_synonym extent_reader =
  "int \<Rightarrow> ft_uoff \<Rightarrow> ft_extent list \<Rightarrow> ft_uoff \<Rightarrow> int \<times> ft_extent list \<times> ft_uoff"

definition read_extents ::
  "extent_reader \<Rightarrow> ft_io_posix \<Rightarrow> ft_extent list \<Rightarrow> ft_extent list \<Rightarrow> ft_uoff
   \<Rightarrow> int \<times> ft_extent list \<times> ft_extent list \<times> ft_uoff" where
  "read_extents rd io loop_file_extents free_space_extents ret_block_size_bitmask =
     (let block_size_bitmask = ret_block_size_bitmask in
      if \<not> is_open_extents io then
        (errno_code ENOTCONN, loop_file_extents, free_space_extents, ret_block_size_bitmask)
      else
        (case rd (fd io FC_LOOP_FILE) (dev_length io) loop_file_extents block_size_bitmask of
           (err, lv, bm) \<Rightarrow>
             if err \<noteq> 0 then (err, lv, free_space_extents, ret_block_size_bitmask)
             else
               (case rd (fd io FC_ZERO_FILE) (dev_length io) free_space_extents bm of
                  (err2, fv, bm2) \<Rightarrow>
                    if err2 \<noteq> 0 then (err2, lv, fv, ret_block_size_bitmask)
                    else (0, lv, fv, bm2))))"

text \<open>An I/O object as the constructor leaves it, with a device length set: every
  descriptor closed. And an extent reader that behaves as any reader must on a closed
  descriptor: it fails with \<open>EBADF\<close>.\<close>

definition io_closed :: "ft_uoff \<Rightarrow> ft_io_posix" where
  "io_closed len =
     \<lparr> fd = (\<lambda>_. -1), dev_length = len, storage_mmap = None, storage_mmap_size = 0,
       primary_storage = [],
       secondary_storage = \<lparr> physical = 0, logical = 0, ext_length = 0, user_data = 0 \<rparr>,
       job_dir = [] \<rparr>"

definition rd_badf :: extent_reader where
  "rd_badf d len v bm = (if d < 0 then (errno_code EBADF, v, bm) else (0, v, bm))"

subsection \<open>Storage: the reservation, the secondary file, the mapped extents\<close>

text \<open>\<open>ft_uoff\<close> and \<open>ft_size\<close> are both 64 bits wide here and \<open>ft_off\<close> is the signed type of
  that width (types.hh is not among the sources), so the two range checks that cast
  between them are the ones of an LP64 build.\<close>

definition storage_is_mapped :: "ft_io_posix \<Rightarrow> bool" where
  "storage_is_mapped io = (storage_mmap io \<noteq> None)"

definition close0 :: "'w kernel \<Rightarrow> ft_io_posix \<Rightarrow> nat \<Rightarrow> 'w proc \<Rightarrow> ft_io_posix \<times> 'w proc" where
  "close0 K io i s =
     (if fd io i \<ge> 0 then
        (case sys K (Close (fd io i)) s of
           (r, s1) \<Rightarrow>
             (io\<lparr> fd := (fd io)(i := -1) \<rparr>,
              if is_fail r then snd (ff_log FC_WARN (cur_errno s1) s1) else s1))
      else (io, s))"

definition close_storage :: "'w kernel \<Rightarrow> ft_io_posix \<Rightarrow> 'w proc \<Rightarrow> ft_io_posix \<times> 'w proc" where
  "close_storage K io s =
     (let (io1, s1) =
            (case storage_mmap io of
               Some base \<Rightarrow>
                 (case sys K (Munmap base (storage_mmap_size io)) s of
                    (r, s') \<Rightarrow>
                      (io\<lparr> storage_mmap := None \<rparr>,
                       if is_fail r then snd (ff_log FC_WARN (cur_errno s') s') else s'))
             | None \<Rightarrow> (io, s))
      in close0 K (io1\<lparr> storage_mmap_size := 0 \<rparr>) FC_PRIMARY_STORAGE s1)"

text \<open>
  The fallback loop of \<open>create_secondary_storage\<close>:
  \<open>while (pos < mem_len) { chunk = min(zero_len, mem_len - pos); ... pos += written; }\<close>.
  The local array \<open>zero\<close> is declared and never written to, so its content is whatever the
  stack holds: the parameter \<open>zero\<close> gives the byte at each index. The loop carries \<open>err\<close>
  along; it is only assigned when a \<open>write\<close> fails or writes nothing.
\<close>

definition zero_len :: ft_size where "zero_len = 64 * 1024"

fun write_zero ::
  "nat \<Rightarrow> 'w kernel \<Rightarrow> (nat \<Rightarrow> byte) \<Rightarrow> int \<Rightarrow> ft_size \<Rightarrow> ft_size \<Rightarrow> int \<Rightarrow> 'w proc
   \<Rightarrow> (int \<times> 'w proc) option" where
  "write_zero 0 K zero d mem_len pos err s = None"
| "write_zero (Suc n) K zero d mem_len pos err s =
     (if pos < mem_len then
        (let chunk = min zero_len (mem_len - pos) in
         case write_retry n K d (map zero [0..<unat chunk]) s of
           None \<Rightarrow> None
         | Some (written, s1) \<Rightarrow>
             if written = -1 \<or> written = 0 then Some (ff_log FC_ERROR (cur_errno s1) s1)
             else write_zero n K zero d mem_len (pos + word_of_int written) err s1)
      else Some (err, s))"

text \<open>\<open>have_fallocate\<close> says whether \<open>FT_HAVE_POSIX_FALLOCATE\<close> was defined at compile
  time.

  The clean-up after an error calls \<open>close0(fd[j])\<close>: the argument is the descriptor's
  value, not the slot \<open>j\<close>. With a descriptor that is open the value is a small index and
  the table is read there. With \<open>fd[j] = -1\<close> (the \<open>open\<close> failed, or a length check
  failed before it) the index is \<open>(ft_size) -1\<close>, which lies outside the array whatever
  its length: the behaviour of the C++ code is undefined from there, and the function
  gives no result, \<open>None\<close>, as it does when the fuel of the write loop runs out.\<close>

definition create_secondary_storage ::
  "nat \<Rightarrow> 'w kernel \<Rightarrow> bool \<Rightarrow> (nat \<Rightarrow> byte) \<Rightarrow> ft_io_posix \<Rightarrow> ft_uoff \<Rightarrow> 'w proc
   \<Rightarrow> (int \<times> ft_io_posix \<times> 'w proc) option" where
  "create_secondary_storage fuel K have_fallocate zero io secondary_len s =
     (let j = FC_SECONDARY_STORAGE;
          path = job_dir io @ ''.storage'';
          len = secondary_len;
          s_len = sint len;
          mem_len = (ucast len :: ft_size);
          body =
            (if s_len < 0 \<or> len \<noteq> word_of_int s_len then
               (case ff_log FC_ERROR (errno_code EOVERFLOW) s of (err, s1) \<Rightarrow> Some (err, io, s1))
             else if len \<noteq> ucast mem_len then
               (case ff_log FC_ERROR (errno_code EOVERFLOW) s of (err, s1) \<Rightarrow> Some (err, io, s1))
             else
               (case sys K (Open path (O_RDWR OR O_CREAT OR O_TRUNC) 0x180) s of
                  (r, s1) \<Rightarrow>
                    let io1 = io\<lparr> fd := (fd io)(j := the_fd r) \<rparr> in
                    if the_fd r < 0 then
                      (case ff_log FC_ERROR (cur_errno s1) s1 of (err, s2) \<Rightarrow> Some (err, io1, s2))
                    else
                      (let s2 = snd (ff_log FC_INFO 0 s1);
                           filled =
                             (if have_fallocate then
                                (case sys_ret K (Posix_fallocate (fd io1 j) 0 len) s2 of
                                   (r2, s3) \<Rightarrow>
                                     if fail_code r2 \<noteq> 0 then
                                       write_zero fuel K zero (fd io1 j) mem_len 0 (fail_code r2) s3
                                     else Some (0, s3))
                              else write_zero fuel K zero (fd io1 j) mem_len 0 0 s2)
                       in
                       case filled of
                         None \<Rightarrow> None
                       | Some (err, s4) \<Rightarrow>
                           Some (err,
                                 io1\<lparr> secondary_storage :=
                                        (secondary_storage io1)
                                          \<lparr> physical := 0, logical := 0, ext_length := len \<rparr> \<rparr>,
                                 snd (ff_log FC_INFO 0 s4)))))
      in
      case body of
        None \<Rightarrow> None
      | Some (err, io2, s5) \<Rightarrow>
          if err \<noteq> 0 then
            (if fd io2 j < 0 then None
             else
               (let need_unlink = is_open0 io2 j;
                    (io3, s6) = close0 K io2 (unat (word_of_int (fd io2 j) :: ft_size)) s5
                in
                if need_unlink then
                  (case sys K (Unlink path) s6 of
                     (r, s7) \<Rightarrow>
                       Some (err, io3,
                             if is_fail r then snd (ff_log FC_WARN (cur_errno s7) s7) else s7))
                else Some (err, io3, s6)))
          else Some (err, io2, s5))"

definition replace_storage_mmap ::
  "'w kernel \<Rightarrow> ft_io_posix \<Rightarrow> int \<Rightarrow> ft_extent \<Rightarrow> nat \<Rightarrow> ft_size \<Rightarrow> 'w proc
   \<Rightarrow> int \<times> ft_extent \<times> ft_size \<times> 'w proc" where
  "replace_storage_mmap K io d storage_extent extent_index ret_mem_offset s =
     (let len = (ucast (ext_length storage_extent) :: ft_size);
          mem_start = ret_mem_offset;
          mem_end = mem_start + len
      in
      if mem_start \<ge> storage_mmap_size io \<or> mem_end > storage_mmap_size io then
        (- errno_code EINVAL, storage_extent, ret_mem_offset, snd (ff_log FC_FATAL 0 s))
      else
        (let addr_old = (case storage_mmap io of Some base \<Rightarrow> base | None \<Rightarrow> - 1) + mem_start in
         case sys K (Munmap addr_old len) s of
           (r1, s1) \<Rightarrow>
             if is_fail r1 then
               (case ff_log FC_ERROR (cur_errno s1) s1 of
                  (err, s2) \<Rightarrow> (err, storage_extent, ret_mem_offset, s2))
             else
               (case sys K (Mmap addr_old len (PROT_READ OR PROT_WRITE) (MAP_SHARED OR MAP_FIXED)
                              d (physical storage_extent)) s1 of
                  (r2, s2) \<Rightarrow>
                    if is_fail r2 then
                      (case ff_log FC_ERROR (cur_errno s2) s2 of
                         (err, s3) \<Rightarrow> (err, storage_extent, ret_mem_offset, s3))
                    else if the_addr r2 \<noteq> addr_old then
                      (let s3 = snd (ff_log FC_ERROR 0 s2) in
                       case sys K (Munmap (the_addr r2) len) s3 of
                         (r3, s4) \<Rightarrow>
                           (- errno_code EFAULT, storage_extent, ret_mem_offset,
                            if is_fail r3 then snd (ff_log FC_WARN (cur_errno s4) s4) else s4))
                    else
                      (0, storage_extent\<lparr> user_data := the_addr r2 \<rparr>, ret_mem_offset + len,
                       snd (ff_log FC_TRACE 0 s2)))))"

text \<open>The loop of \<open>create_storage\<close> over the primary-storage extents,
  \<open>for (iter = begin; err == 0 && iter != end; ++iter)\<close>: the error, the extents with their
  \<open>user_data\<close> set, and the memory offset reached.\<close>

fun replace_primary ::
  "'w kernel \<Rightarrow> ft_io_posix \<Rightarrow> ft_extent list \<Rightarrow> nat \<Rightarrow> ft_size \<Rightarrow> 'w proc
   \<Rightarrow> int \<times> ft_extent list \<times> ft_size \<times> 'w proc" where
  "replace_primary K io [] idx mem_offset s = (0, [], mem_offset, s)"
| "replace_primary K io (e # es) idx mem_offset s =
     (case replace_storage_mmap K io (fd io FC_DEVICE) e idx mem_offset s of
        (err, e', off', s1) \<Rightarrow>
          if err \<noteq> 0 then (err, e' # es, off', s1)
          else
            (case replace_primary K io es (Suc idx) off' s1 of
               (err2, es', off2, s2) \<Rightarrow> (err2, e' # es', off2, s2)))"

definition create_storage ::
  "nat \<Rightarrow> 'w kernel \<Rightarrow> bool \<Rightarrow> (nat \<Rightarrow> byte) \<Rightarrow> ft_io_posix \<Rightarrow> ft_uoff \<Rightarrow> 'w proc
   \<Rightarrow> (int \<times> ft_io_posix \<times> 'w proc) option" where
  "create_storage fuel K have_fallocate zero io secondary_len s =
     (let j = FC_SECONDARY_STORAGE in
      if storage_is_mapped io \<or> is_open0 io j then
        Some (- errno_code EISCONN, io, snd (ff_log FC_ERROR 0 s))
      else
        (let primary_len = sum_list (map ext_length (primary_storage io));
             total_len = primary_len + secondary_len;
             mem_len = (ucast total_len :: ft_size);
             body =
               (if total_len \<noteq> ucast mem_len then
                  (case ff_log FC_ERROR (errno_code EOVERFLOW) s of
                     (err, s1) \<Rightarrow> Some (err, io, s1))
                else
                  (case sys K (Mmap 0 mem_len PROT_NONE (MAP_PRIVATE OR MAP_ANONYMOUS) (- 1) 0) s of
                     (r, s1) \<Rightarrow>
                       if is_fail r then
                         (case ff_log FC_ERROR (cur_errno s1) s1 of
                            (err, s2) \<Rightarrow> Some (err, io, s2))
                       else
                         (let io1 = io\<lparr> storage_mmap := Some (the_addr r),
                                        storage_mmap_size := mem_len \<rparr>;
                              s2 = snd (ff_log FC_DEBUG 0 s1)
                          in
                          case (if secondary_len \<noteq> 0 then
                                  create_secondary_storage fuel K have_fallocate zero io1
                                    secondary_len s2
                                else Some (0, io1, snd (ff_log FC_INFO 0 s2))) of
                            None \<Rightarrow> None
                          | Some (err, io2, s3) \<Rightarrow>
                              if err \<noteq> 0 then Some (err, io2, s3)
                              else
                                (case replace_primary K io2 (primary_storage io2) 0 0 s3 of
                                   (err2, exts, mem_offset, s4) \<Rightarrow>
                                     let io3 = io2\<lparr> primary_storage := exts \<rparr> in
                                     if err2 \<noteq> 0 then Some (err2, io3, s4)
                                     else
                                       (let (err3, ext, mem_offset2, s5) =
                                              (if secondary_len \<noteq> 0 then
                                                 replace_storage_mmap K io3 (fd io3 j)
                                                   (secondary_storage io3) 0 mem_offset s4
                                               else (0, secondary_storage io3, mem_offset, s4));
                                            io4 = io3\<lparr> secondary_storage := ext \<rparr>
                                        in
                                        if err3 \<noteq> 0 then Some (err3, io4, s5)
                                        else if mem_offset2 \<noteq> storage_mmap_size io4 then
                                          Some (errno_code EINVAL, io4, snd (ff_log FC_ERROR 0 s5))
                                        else Some (0, io4, s5))))))
         in
         case body of
           None \<Rightarrow> None
         | Some (err, io5, s6) \<Rightarrow>
             if err = 0 then Some (0, io5, snd (ff_log FC_NOTICE 0 s6))
             else (case close_storage K io5 s6 of (io6, s7) \<Rightarrow> Some (err, io6, s7))))"



subsection \<open>The job (job.hh) and the storage planner\<close>










subsection \<open>Inputs for the concrete runs of the storage code\<close>


definition io_job :: ft_io_posix where
  "io_job = (io_closed 1048576)\<lparr> job_dir := ''.fstransform/job.1/'' \<rparr>"

definition dev_world :: fs where
  "dev_world = (fs_of [(''/dev/sdb1'', node_with (S_IFBLK OR 0x1B0) 0 5)])
      \<lparr> fds := [3 \<mapsto> (''/dev/sdb1'', 0)], next_fd := 4 \<rparr>"

definition io_dev :: "ft_extent list \<Rightarrow> ft_io_posix" where
  "io_dev exts = io_job\<lparr> fd := (\<lambda>_. -1)(FC_DEVICE := 3), primary_storage := exts \<rparr>"

definition extent :: "ft_uoff \<Rightarrow> ft_uoff \<Rightarrow> ft_uoff \<Rightarrow> ft_extent" where
  "extent p l n = \<lparr> physical = p, logical = l, ext_length = n, user_data = 0 \<rparr>"


definition storage_path :: string where
  "storage_path = ''.fstransform/job.1/.storage''"

definition posix_no_fallocate :: "fs kernel" where
  "posix_no_fallocate c w =
     (case c of Posix_fallocate d off l \<Rightarrow> (Fail EOPNOTSUPP, w) | _ \<Rightarrow> posix c w)"

definition posix_map_moves :: "fs kernel" where
  "posix_map_moves c w =
     (case c of
        Mmap a l pr fl d off \<Rightarrow>
          if fl AND MAP_FIXED \<noteq> 0 then (Ret_addr (a + 0x1000), w) else posix c w
      | _ \<Rightarrow> posix c w)"

section \<open>The remap tool's command line (transform.cc)\<close>

text \<open>The table \<open>ft_io::label\<close> of io/io_posix.cc.\<close>

definition label :: "string list" where
  "label = [''device'', ''loop-file'', ''zero-file'', ''secondary-storage'',
            ''primary-storage'', ''storage'']"

text \<open>
  What \<open>main\<close> lets the outside see: lines on the two output streams, and the three
  stages it hands over to once the arguments are accepted. \<open>init_job\<close>, \<open>init_io_posix\<close>
  and \<open>run\<close> create the job directory, open the three files and do the remapping; for the
  command line only their results matter, which are given by \<open>cli_env\<close>.
\<close>

datatype cli_event =
    Print_stdout string
  | Print_stderr string
  | Call_init_job
  | Call_init_io_posix "string list"
  | Call_run

record cli_env =
  init_job_result :: int
  init_io_posix_result :: "string list \<Rightarrow> int"
  run_result :: int

text \<open>The transformer object: \<open>fm_io\<close> is \<open>None\<close> for the null pointer, else whether the I/O
  object it points to is open. \<open>is_initialized\<close> (transform.hh, not among the sources) is
  taken from the comment of \<open>check_is_closed\<close>, which calls \<open>fm_io != NULL &&
  !fm_io->is_open()\<close> the half-initialized status.\<close>

record ft_transform =
  fm_io :: "bool option"

definition is_initialized :: "ft_transform \<Rightarrow> bool" where
  "is_initialized t = (case fm_io t of None \<Rightarrow> False | Some is_open \<Rightarrow> is_open)"

definition quit :: "ft_transform \<Rightarrow> ft_transform" where
  "quit t = t\<lparr> fm_io := None \<rparr>"

text \<open>\<open>argv[i]\<close>: the array ends with a null pointer, which \<open>printf\<close> renders as \<open>(null)\<close>.\<close>

definition argv_at :: "string list \<Rightarrow> nat \<Rightarrow> string" where
  "argv_at argv i = (if i < length argv then argv ! i else ''(null)'')"

definition usage :: "string \<Rightarrow> int \<times> cli_event list" where
  "usage program_name =
     (0, [Print_stdout (''Usage: '' @ program_name @ '' '' @ label ! 0 @ '' '' @ label ! 1
                        @ '' '' @ label ! 2 @ [CHR 0x0A])])"

text \<open>Modelled from the spec: \<open>ff_vfail\<close> (fail.cc) is not among the sources; the spec has
  the usage error printed to stderr, so it is one line there.\<close>

definition ff_vfail :: "string \<Rightarrow> cli_event list" where
  "ff_vfail msg = [Print_stderr msg]"

definition invalid_cmdline :: "string \<Rightarrow> string \<Rightarrow> int \<times> cli_event list" where
  "invalid_cmdline program_name msg =
     (1, ff_vfail msg
         @ [Print_stderr (''Try `'' @ program_name @ '' --help' for more information'' @ [CHR 0x0A])])"

definition check_is_closed :: "ft_transform \<Rightarrow> (int \<times> cli_event list) \<times> ft_transform" where
  "check_is_closed t =
     (if is_initialized t then
        ((errno_code EISCONN, ff_vfail ''error: I/O subsystem already initialized''), t)
      else ((0, []), quit t))"

definition init :: "cli_env \<Rightarrow> ft_transform \<Rightarrow> string list \<Rightarrow> int \<times> cli_event list" where
  "init env t argv =
     (let argc = length argv;
          ((err0, out0), t1) = check_is_closed t;
          (err1, out1) =
            (if err0 \<noteq> 0 then (err0, [])
             else if argc \<le> 1 then
               invalid_cmdline (argv_at argv 0)
                 (''missing arguments: '' @ label ! 0 @ '' '' @ label ! 1 @ '' '' @ label ! 2)
             else if argc \<le> 2 then
               invalid_cmdline (argv_at argv 0)
                 (''missing arguments: '' @ label ! 1 @ '' '' @ label ! 2)
             else if argc \<le> 3 then
               invalid_cmdline (argv_at argv 0) (''missing argument: '' @ label ! 2)
             else (err0, []));
          (err2, out2) = (if err1 = 0 then (init_job_result env, [Call_init_job]) else (err1, []));
          (err3, out3) =
            (if err2 = 0 then
               (init_io_posix_result env (take 3 (drop 1 argv)),
                [Call_init_io_posix (take 3 (drop 1 argv))])
             else (err2, []))
      in (err3, out0 @ out1 @ out2 @ out3))"

text \<open>\<open>ft_transform::main\<close>, on a transformer fresh from its constructor.\<close>

definition main :: "cli_env \<Rightarrow> string list \<Rightarrow> int \<times> cli_event list" where
  "main env argv =
     (let transformer = \<lparr> fm_io = None \<rparr> in
      if length argv = 2 \<and> argv ! 1 = ''--help'' then usage (argv_at argv 0)
      else
        (case init env transformer argv of
           (err, out) \<Rightarrow>
             if err = 0 then (run_result env, out @ [Call_run]) else (err, out)))"

text \<open>An environment in which every stage succeeds.\<close>

definition env_ok :: cli_env where
  "env_ok = \<lparr> init_job_result = 0, init_io_posix_result = (\<lambda>_. 0), run_result = 0 \<rparr>"

definition is_stderr :: "cli_event \<Rightarrow> bool" where
  "is_stderr e = (case e of Print_stderr x \<Rightarrow> True | _ \<Rightarrow> False)"

section \<open>The hole zeroer (tmp_zero.cc)\<close>

definition ZERO_BUF_LEN :: ft_uoff where "ZERO_BUF_LEN = 1024 * 1024"

text \<open>
  The effective block size: \<open>while ((block_size_bitmask & 1) == 0)\<close> counts the trailing
  zero bits of the mask. The loop by itself does not end on the mask 0, so it is a partial
  function; the guard \<open>block_size_bitmask != 0\<close> around it is the caller's.
\<close>

partial_function (option) ctz_loop :: "ft_uoff \<Rightarrow> ft_uoff \<Rightarrow> ft_uoff option" where
  "ctz_loop block_size_bitmask eff_block_size_log2 =
     (if block_size_bitmask AND 1 = 0 then
        ctz_loop (drop_bit 1 block_size_bitmask) (eff_block_size_log2 + 1)
      else Some eff_block_size_log2)"

declare ctz_loop.simps [code]

definition eff_block_size_log2_of :: "ft_uoff \<Rightarrow> ft_uoff option" where
  "eff_block_size_log2_of block_size_bitmask =
     (if block_size_bitmask \<noteq> 0 then ctz_loop block_size_bitmask 0 else Some 0)"

text \<open>The inner loop \<open>while (left != 0)\<close>: zero bytes in chunks of at most \<open>ZERO_BUF_LEN\<close>,
  from the buffer that \<open>memset\<close> cleared. A failed write assigns \<open>err\<close> and leaves this loop
  only. \<open>left\<close> shrinks by a nonzero chunk each round.\<close>

function zero_write_loop ::
  "'w kernel \<Rightarrow> int \<Rightarrow> ft_uoff \<Rightarrow> int \<Rightarrow> 'w proc \<Rightarrow> int \<times> 'w proc" where
  "zero_write_loop K dev_fd left err s =
     (if left \<noteq> 0 then
        (let chunk = min left ZERO_BUF_LEN in
         case sys_ret K (Write_all dev_fd (replicate (unat chunk) 0)) s of
           (r, s1) \<Rightarrow>
             if fail_code r \<noteq> 0 then ff_log FC_ERROR (fail_code r) s1
             else zero_write_loop K dev_fd (left - chunk) 0 s1)
      else (err, s))"
  by pat_completeness auto
termination
proof (relation "measure (\<lambda>(K, dev_fd, left, err, s). unat left)")
  show "wf (measure (\<lambda>(K :: 'w kernel, dev_fd :: int, left :: ft_uoff, err :: int, s :: 'w proc). unat left))"
    by simp
next
  fix K :: "'w kernel" and dev_fd :: int and left :: ft_uoff and err :: int and s :: "'w proc"
    and chunk :: ft_uoff and x :: "reply \<times> 'w proc" and r :: reply and s1 :: "'w proc"
  assume nz: "left \<noteq> 0" and ch: "chunk = min left ZERO_BUF_LEN"
  have "chunk \<noteq> 0" using nz ch by (auto simp: ZERO_BUF_LEN_def min_def)
  moreover have "chunk \<le> left" using ch by simp
  ultimately have "unat (left - chunk) < unat left"
    by (simp add: unat_sub word_le_nat_alt unat_gt_0 [symmetric] unat_eq_zero)
  then show "((K, dev_fd, left - chunk, 0, s1), (K, dev_fd, left, err, s))
      \<in> measure (\<lambda>(K, dev_fd, left, err, s). unat left)"
    by simp
qed

text \<open>The loop over the map of holes, in the map's order: seek to the extent's offset in
  bytes and zero its length in bytes. A failed seek ends the loop; a failed write
  does not, the next extent is tried and \<open>err\<close> overwritten.\<close>

fun zero_holes ::
  "'w kernel \<Rightarrow> int \<Rightarrow> ft_uoff \<Rightarrow> ft_extent list \<Rightarrow> int \<Rightarrow> 'w proc \<Rightarrow> int \<times> 'w proc" where
  "zero_holes K dev_fd eff_block_size_log2 [] err s = (err, s)"
| "zero_holes K dev_fd eff_block_size_log2 (hole # rest) err s =
     (let offset = push_bit (unat eff_block_size_log2) (physical hole);
          left = push_bit (unat eff_block_size_log2) (ext_length hole)
      in
      case sys_ret K (Lseek dev_fd offset) s of
        (r, s1) \<Rightarrow>
          if fail_code r \<noteq> 0 then ff_log FC_ERROR (fail_code r) s1
          else
            (case zero_write_loop K dev_fd left 0 s1 of
               (err1, s2) \<Rightarrow> zero_holes K dev_fd eff_block_size_log2 rest err1 s2))"

text \<open>
  Modelled from the spec: \<open>fr_map::complement0_logical_shift\<close> (map.hh) is not among the
  sources. By the spec its input is in bytes; it shifts right by \<open>block_size_log2\<close> to
  convert to blocks, then complements against \<open>[0, total_length >> block_size_log2)\<close>,
  keyed by \<open>logical\<close>; an extent of the result has its physical offset equal to its
  logical one. \<open>gaps\<close> sweeps the shifted extents, ordered by their start, and collects
  what lies between them below the total; it works on natural numbers, and every gap it
  yields lies below the total, so nothing is lost turning it into an extent.
\<close>

fun gaps :: "(nat \<times> nat) list \<Rightarrow> nat \<Rightarrow> nat \<Rightarrow> (nat \<times> nat) list" where
  "gaps [] covered total_count = (if covered < total_count then [(covered, total_count - covered)] else [])"
| "gaps ((lo, len) # rest) covered total_count =
     (if covered < lo \<and> covered < total_count then
        (covered, min lo total_count - covered) # gaps rest (max covered (lo + len)) total_count
      else gaps rest (max covered (lo + len)) total_count)"

definition shift_extent :: "nat \<Rightarrow> ft_extent \<Rightarrow> nat \<times> nat" where
  "shift_extent n e = (unat (drop_bit n (logical e)), unat (drop_bit n (ext_length e)))"

definition hole_extent :: "nat \<times> nat \<Rightarrow> ft_extent" where
  "hole_extent g =
     \<lparr> physical = of_nat (fst g), logical = of_nat (fst g), ext_length = of_nat (snd g),
       user_data = 0 \<rparr>"

definition complement0_logical_shift :: "ft_extent list \<Rightarrow> ft_uoff \<Rightarrow> ft_uoff \<Rightarrow> ft_extent list" where
  "complement0_logical_shift input_vector block_size_log2 total_length =
     map hole_extent
       (gaps (sort_key fst (map (shift_extent (unat block_size_log2)) input_vector)) 0
          (unat (drop_bit (unat block_size_log2) total_length)))"

text \<open>What \<open>ff_zero_loop_file_holes\<close> does on leaving the \<open>do\<close> block: close the persistence
  file if it was opened, and the device if it was.

  The two size queries \<open>ff_posix_blkdev_size\<close> (an \<open>ioctl\<close>) and \<open>ff_posix_size\<close> (an
  \<open>fstat\<close>) return the error of the system call they wrap, which is also what that call
  left in \<open>errno\<close>; the messages after them log \<open>errno\<close>.\<close>

definition finish_zero ::
  "'w kernel \<Rightarrow> int option \<Rightarrow> int \<Rightarrow> int \<times> 'w proc \<Rightarrow> int \<times> 'w proc" where
  "finish_zero K f dev_fd es =
     (case es of
        (err, s) \<Rightarrow>
          let s1 = (case f of Some fp \<Rightarrow> snd (sys K (Fclose fp) s) | None \<Rightarrow> s);
              s2 = (if dev_fd \<ge> 0 then snd (sys K (Close dev_fd) s1) else s1)
          in (err, s2))"

definition ff_zero_loop_file_holes ::
  "'w kernel \<Rightarrow> string list \<Rightarrow> 'w proc \<Rightarrow> (int \<times> 'w proc) option" where
  "ff_zero_loop_file_holes K argv s =
     (let args0 = argv_at argv 1; args1 = argv_at argv 2 in
      case sys K (Open args0 O_RDWR 0) s of
        (r, s1) \<Rightarrow>
          let dev_fd = the_fd r in
          if dev_fd < 0 then Some (finish_zero K None dev_fd (ff_log FC_ERROR (cur_errno s1) s1))
          else
            (case sys K (Blkdev_size dev_fd) s1 of
               (r2, s2) \<Rightarrow>
                 let (size_err, dev_len, s3) =
                       (if fail_code r2 \<noteq> 0 then
                          (case sys K (Fstat_size dev_fd)
                                  (snd (ff_log FC_WARN (cur_errno s2) s2)) of
                             (r3, s') \<Rightarrow> (fail_code r3, the_size r3, s'))
                        else (0, the_size r2, s2))
                 in
                 if size_err \<noteq> 0 then
                   Some (finish_zero K None dev_fd (ff_log FC_ERROR (cur_errno s3) s3))
                 else
                   (case sys K (Fopen args1) s3 of
                      (r4, s4) \<Rightarrow>
                        if is_fail r4 then
                          Some (finish_zero K None dev_fd (ff_log FC_ERROR (cur_errno s4) s4))
                        else
                          (let f = the_fd r4 in
                           case sys_ret K (Load_extents f) s4 of
                             (r5, s5) \<Rightarrow>
                               if fail_code r5 \<noteq> 0 then
                                 Some (finish_zero K (Some f) dev_fd
                                         (ff_log FC_ERROR (fail_code r5) s5))
                               else
                                 (case the_extents r5 of
                                    (loop_extents, block_size_bitmask) \<Rightarrow>
                                      (case eff_block_size_log2_of block_size_bitmask of
                                         None \<Rightarrow> None
                                       | Some eff_block_size_log2 \<Rightarrow>
                                           let loop_holes_map =
                                                 complement0_logical_shift loop_extents
                                                   eff_block_size_log2 dev_len;
                                               s6 = snd (ff_log FC_INFO 0 s5)
                                           in
                                           Some (finish_zero K (Some f) dev_fd
                                                   (zero_holes K dev_fd eff_block_size_log2
                                                      loop_holes_map 0 s6))))))))"

subsection \<open>A device to run the zeroer on\<close>

text \<open>
  The device's length, the content of the persistence file (extents and bitmask), the
  position of the device's descriptor, the bytes of the device, and a script of what
  the next seeks and writes will do: \<open>None\<close> (also when the script is used up) lets the
  call succeed, \<open>Some (e, k)\<close> fails it with error \<open>e\<close>, a write after its first \<open>k\<close> bytes
  were written.
\<close>

record dev =
  d_len :: ft_uoff
  d_save :: "ft_extent list \<times> ft_uoff"
  d_pos :: nat
  d_mem :: "nat \<Rightarrow> byte"
  d_faults :: "(errno \<times> nat) option list"

definition next_fault :: "dev \<Rightarrow> (errno \<times> nat) option \<times> dev" where
  "next_fault w =
     (case d_faults w of [] \<Rightarrow> (None, w) | x # xs \<Rightarrow> (x, w\<lparr> d_faults := xs \<rparr>))"

definition dev_write :: "byte list \<Rightarrow> dev \<Rightarrow> dev" where
  "dev_write bs w =
     w\<lparr> d_mem := (\<lambda>b. if d_pos w \<le> b \<and> b < d_pos w + length bs then bs ! (b - d_pos w)
                        else d_mem w b),
        d_pos := d_pos w + length bs \<rparr>"

fun dev_kernel :: "dev kernel" where
  "dev_kernel (Open p fl m) w = (Ret_fd 3, w)"
| "dev_kernel (Blkdev_size d) w = (Ret_size (d_len w), w)"
| "dev_kernel (Fopen p) w = (Ret_fd 4, w)"
| "dev_kernel (Load_extents f) w = (Ret_extents (fst (d_save w)) (snd (d_save w)), w)"
| "dev_kernel (Lseek d off) w =
     (case next_fault w of
        (Some (e, k), w') \<Rightarrow> (Fail e, w')
      | (None, w') \<Rightarrow> (Done, w'\<lparr> d_pos := unat off \<rparr>))"
| "dev_kernel (Write_all d bs) w =
     (case next_fault w of
        (Some (e, k), w') \<Rightarrow> (Fail e, dev_write (take k bs) w')
      | (None, w') \<Rightarrow> (Done, dev_write bs w'))"
| "dev_kernel c w = (Done, w)"

text \<open>The bytes of the device that an extent in blocks covers once it is shifted back to
  bytes the way the zeroer does it, and those of a list of extents.\<close>

definition hole_bytes :: "ft_uoff \<Rightarrow> ft_extent \<Rightarrow> nat set" where
  "hole_bytes log2 h =
     {b. unat (push_bit (unat log2) (physical h)) \<le> b
         \<and> b < unat (push_bit (unat log2) (physical h))
                 + unat (push_bit (unat log2) (ext_length h))}"

definition holes_bytes :: "ft_uoff \<Rightarrow> ft_extent list \<Rightarrow> nat set" where
  "holes_bytes log2 holes = (\<Union>h \<in> set holes. hole_bytes log2 h)"

text \<open>Whether a block lies in one of a list of (start, length) ranges.\<close>

definition covered_by :: "(nat \<times> nat) list \<Rightarrow> nat \<Rightarrow> bool" where
  "covered_by xs k = (\<exists>x \<in> set xs. fst x \<le> k \<and> k < fst x + snd x)"

definition in_gaps :: "(nat \<times> nat) list \<Rightarrow> nat \<Rightarrow> bool" where
  "in_gaps gs k = (\<exists>g \<in> set gs. fst g \<le> k \<and> k < fst g + snd g)"

text \<open>The spec's scenario 7: a device of four blocks of 4096 bytes, every byte \<open>0xFF\<close>; the
  loop file holds the blocks 0 and 2.\<close>

definition dev7 :: dev where
  "dev7 = \<lparr> d_len = 16384, d_save = ([extent 0 0 4096, extent 8192 8192 4096], 0x7000),
            d_pos = 0, d_mem = (\<lambda>_. 0xFF), d_faults = [] \<rparr>"

text \<open>The same device when its first write fails with \<open>EIO\<close> before a byte is written: the
  first seek succeeds, the first write fails, every later call succeeds.\<close>

definition dev7_write_fails :: dev where
  "dev7_write_fails = dev7\<lparr> d_faults := [None, Some (EIO, 0)] \<rparr>"

section \<open>Theorems\<close>

lemma errno_code_pos: "0 < errno_code e"
  by (cases e) simp_all

subsection \<open>Facts about the process state\<close>

lemma fail_code_pos: "is_fail r \<Longrightarrow> 0 < fail_code r"
  by (cases r) (simp_all add: errno_code_pos)

lemma fail_code_nonzero: "is_fail r \<Longrightarrow> fail_code r \<noteq> 0"
  using fail_code_pos [of r] by simp

lemma fail_code_not_le: "is_fail r \<Longrightarrow> \<not> fail_code r \<le> 0"
  using fail_code_pos [of r] by simp

lemma sys_reply:
  "K c (world s) = (r, w') \<Longrightarrow>
   sys K c s =
     (r, s\<lparr> trace := trace s @ [Sys c],
            cur_errno := (if is_fail r then fail_code r else cur_errno s),
            world := w' \<rparr>)"
  by (cases r) (simp_all add: sys_def)

lemma syscalls_of_append: "syscalls_of (a @ b) = syscalls_of a @ syscalls_of b"
  by (simp add: syscalls_of_def)

lemma syscalls_of_simps:
  "syscalls_of [] = []"
  "syscalls_of (Sys c # tr) = c # syscalls_of tr"
  "syscalls_of (Log l x # tr) = syscalls_of tr"
  by (simp_all add: syscalls_of_def)

lemma the_fd_neg: "the_fd r < 0 \<longleftrightarrow> is_fail r"
  by (cases r) simp_all

lemma the_fd_nonneg: "0 \<le> the_fd r \<longleftrightarrow> \<not> is_fail r"
  by (cases r) simp_all

subsection \<open>The tree mover\<close>

text \<open>
  C8. \<open>copy_stat\<close> makes its calls in a fixed order, whatever the kernel answers. First
  \<open>utimes\<close> with the source's access and modification seconds and microseconds 0; when it
  fails a warning is logged and the function goes on. Then \<open>lchown\<close> with the source's
  owner and group; when it fails the error is logged and returned (nonzero) and nothing
  else is called. Last, when \<open>lchown\<close> succeeded and the mode is not a symbolic link's,
  \<open>chmod\<close> with the source's mode; when it fails the error is logged and returned
  (nonzero). Otherwise the result is 0. The trace shows \<open>chmod\<close> only after \<open>lchown\<close>.
\<close>

theorem C8_copy_stat_sequence:
  fixes K :: "'w kernel"
  shows
  "let utimes = Utimes target (st_atime st, 0) (st_mtime st, 0);
       lchown = Lchown target (st_uid st) (st_gid st);
       chmod = Chmod target (st_mode st);
       r1 = fst (K utimes (world s)); w1 = snd (K utimes (world s));
       r2 = fst (K lchown w1); w2 = snd (K lchown w1);
       r3 = fst (K chmod w2); w3 = snd (K chmod w2);
       first = trace s @ [Sys utimes] @ (if is_fail r1 then [Log FC_WARN (fail_code r1)] else [])
                 @ [Sys lchown];
       err = fst (copy_stat K target st s); s' = snd (copy_stat K target st s)
   in
     if is_fail r2 then
       err = - fail_code r2 \<and> err \<noteq> 0 \<and> world s' = w2
       \<and> trace s' = first @ [Log FC_ERROR (fail_code r2)]
     else if S_ISLNK (st_mode st) then
       err = 0 \<and> world s' = w2 \<and> trace s' = first
     else if is_fail r3 then
       err = - fail_code r3 \<and> err \<noteq> 0 \<and> world s' = w3
       \<and> trace s' = first @ [Sys chmod, Log FC_ERROR (fail_code r3)]
     else
       err = 0 \<and> world s' = w3 \<and> trace s' = first @ [Sys chmod]"
proof -
  obtain r1 w1 where k1: "K (Utimes target (st_atime st, 0) (st_mtime st, 0)) (world s) = (r1, w1)"
    by fastforce
  obtain r2 w2 where k2: "K (Lchown target (st_uid st) (st_gid st)) w1 = (r2, w2)"
    by fastforce
  obtain r3 w3 where k3: "K (Chmod target (st_mode st)) w2 = (r3, w3)"
    by fastforce
  show ?thesis
    by (simp add: Let_def copy_stat_def k1 k2 k3 sys_reply ff_log_def fail_code_nonzero fail_code_pos)
qed

text \<open>
  C10. When the mover is not simulating and the read-only \<open>open\<close> of the source fails,
  \<open>move_file\<close> still calls \<open>open\<close> on the target with \<open>O_CREAT|O_WRONLY\<close> and the source's
  mode, closes the descriptor it got if it got one, calls nothing else, and returns a
  nonzero error: the error of the target's \<open>open\<close> if that failed too, else the error of
  the source's. The world is left as these calls leave it, so with a kernel that creates
  the file the target exists afterwards although the move failed.
\<close>

theorem C10_move_file_creates_target:
  fixes K :: "'w kernel"
  assumes "\<not> simulate_run io"
    and "is_fail (fst (K (Open source O_RDONLY 0) (world s)))"
  shows
  "let w1 = snd (K (Open source O_RDONLY 0) (world s));
       open_target = Open target (O_CREAT OR O_WRONLY) (st_mode st);
       r2 = fst (K open_target w1); w2 = snd (K open_target w1)
   in \<exists>err s'. move_file fuel K io source st target s = Some (err, s') \<and> err \<noteq> 0
        \<and> err = - fail_code (if is_fail r2 then r2 else fst (K (Open source O_RDONLY 0) (world s)))
        \<and> syscalls_of (trace s') =
            syscalls_of (trace s) @ [Open source O_RDONLY 0, open_target]
              @ (if is_fail r2 then [] else [Close (the_fd r2)])
        \<and> world s' = (if is_fail r2 then w2 else snd (K (Close (the_fd r2)) w2))"
proof -
  obtain r1 w1 where k1: "K (Open source O_RDONLY 0) (world s) = (r1, w1)"
    by fastforce
  obtain r2 w2 where k2: "K (Open target (O_CREAT OR O_WRONLY) (st_mode st)) w1 = (r2, w2)"
    by fastforce
  obtain r3 w3 where k3: "K (Close (the_fd r2)) w2 = (r3, w3)"
    by fastforce
  from assms(2) k1 have f1: "is_fail r1" by simp
  show ?thesis
    using assms(1) f1
    by (simp add: Let_def move_file_def k1 k2 k3 sys_reply ff_log_def fail_code_nonzero
        fail_code_pos fail_code_not_le the_fd_nonneg the_fd_neg syscalls_of_append syscalls_of_simps)
qed

text \<open>The reference kernel on an empty file system: the source does not exist, the move
  fails with \<open>ENOENT\<close>, and an empty file has appeared at the target's path.\<close>

theorem C10_move_file_creates_target_witness:
  "\<not> simulate_run (mover False)
   \<and> is_fail (fst (posix (Open ''/src/a.txt'' O_RDONLY 0) (world (start (fs_of [])))))
   \<and> map_option fst (move_file 0 posix (mover False) ''/src/a.txt'' (n_stat (new_node 0x81A4))
        ''/dst/a.txt'' (start (fs_of []))) = Some (- 2)
   \<and> map_option (\<lambda>r. map_option n_data (nodes (world (snd r)) ''/dst/a.txt''))
        (move_file 0 posix (mover False) ''/src/a.txt'' (n_stat (new_node 0x81A4))
           ''/dst/a.txt'' (start (fs_of []))) = Some (Some [])"
  using C10_move_file_creates_target [of "mover False" posix "''/src/a.txt''" "start (fs_of [])"
      "''/dst/a.txt''" "n_stat (new_node 0x81A4)" 0]
  by (auto simp add: mover_def start_def fs_of_def Let_def new_node_def put_node_def open_fd_def
      O_CREAT_def O_WRONLY_def O_RDONLY_def)

text \<open>
  C2 (the code departs from the claim). The claim: \<open>move_special\<close> on a symbolic link
  leaves at the target's path a link with the source link's content, the creation call
  being \<open>symlink(link_target, link_path)\<close>. The code calls \<open>symlink(target, link_to)\<close>, the
  new path first and the content read from the source second. Run on the link
  \<open>/src/link\<close> with content \<open>a.txt\<close> and the target \<open>/dst/link\<close>: the call creates a link at
  the path \<open>a.txt\<close> whose content is \<open>/dst/link\<close>, nothing exists at \<open>/dst/link\<close>, and
  \<open>lchown\<close> on it fails with \<open>ENOENT\<close>. With a regular file already at \<open>/dst/link\<close> the
  function returns 0 and has removed the source, and the target is still that regular
  file.
\<close>

theorem C2_move_special_symlink_arguments_swapped:
  "\<not> simulate_run (mover False) \<and> S_ISLNK (st_mode (n_stat a_link))
   \<and> (case move_special posix (mover False) ''/src/link'' (n_stat a_link) ''/dst/link''
          (start link_world) of
        (err, s) \<Rightarrow>
          (err, syscalls_of (trace s), map_option n_link (nodes (world s) ''a.txt''),
           nodes (world s) ''/dst/link''))
      = (- errno_code ENOENT,
         [Readlink ''/src/link'' 4096, Symlink ''/dst/link'' ''a.txt'',
          Utimes ''/dst/link'' (77, 0) (77, 0), Lchown ''/dst/link'' 1000 1000],
         Some ''/dst/link'', None)
   \<and> (case move_special posix (mover False) ''/src/link'' (n_stat a_link) ''/dst/link''
          (start link_world_target) of
        (err, s) \<Rightarrow>
          (err, map_option (\<lambda>n. S_ISLNK (st_mode (n_stat n))) (nodes (world s) ''/dst/link''),
           nodes (world s) ''/src/link''))
      = (0, Some False, None)"
  by code_simp

text \<open>What simulation mode does switch off, for every kernel: the rename (answered with
  \<open>EXDEV\<close>), \<open>move_file\<close>, \<open>move_special\<close>, \<open>create_dir\<close> and \<open>remove_dir\<close> make no call and
  report success.\<close>

lemma simulation_gated:
  assumes "simulate_run io"
  shows "move_rename K io a b s = (errno_code EXDEV, s)"
    and "map_option (\<lambda>r. (fst r, syscalls_of (trace (snd r)), world (snd r)))
           (move_file fuel K io a st b s) = Some (0, syscalls_of (trace s), world s)"
    and "(\<lambda>r. (fst r, syscalls_of (trace (snd r)), world (snd r))) (move_special K io a st b s)
           = (0, syscalls_of (trace s), world s)"
    and "(\<lambda>r. (fst r, syscalls_of (trace (snd r)), world (snd r))) (create_dir K io b st s)
           = (0, syscalls_of (trace s), world s)"
    and "(\<lambda>r. (fst r, syscalls_of (trace (snd r)), world (snd r))) (remove_dir K io a s)
           = (0, syscalls_of (trace s), world s)"
  using assms
  by (simp_all add: move_rename_def move_file_def move_special_def create_dir_def remove_dir_def
      ff_log_def Let_def syscalls_of_append syscalls_of_simps)

text \<open>
  C3 (the code departs from the claim). The claim: in simulation mode every destructive
  operation is a no-op that returns success, the rename excepted, which returns \<open>EXDEV\<close>.
  The code: \<open>copy_stat\<close> does not look at \<open>simulate_run()\<close>, and \<open>move\<close> calls it for every
  directory. Simulating the move of the empty directory \<open>/src\<close> to \<open>/dst\<close>: the calls
  \<open>utimes\<close>, \<open>lchown\<close> and \<open>chmod\<close> are made on \<open>/dst\<close>. When \<open>/dst\<close> exists its owner, mode and
  times are changed to those of \<open>/src\<close>; when it does not (the simulated \<open>mkdir\<close> created
  nothing) \<open>lchown\<close> fails and the simulated run ends with \<open>ENOENT\<close>.
\<close>

theorem C3_simulation_runs_copy_stat:
  "simulate_run (mover True)
   \<and> map_option n_stat (nodes dir_world_target ''/dst'')
       = Some (n_stat (node_with (S_IFDIR OR 0x1C0) 0 5))
   \<and> map_option (\<lambda>r. (fst r, syscalls_of (trace (snd r)),
                       map_option n_stat (nodes (world (snd r)) ''/dst'')))
        (move_roots 3 posix (mover True) (start dir_world_target))
       = Some (0, [Umask 0, Lstat ''/src'', Opendir ''/src'', Readdir ''/src'',
                   Utimes ''/dst'' (77, 0) (77, 0), Lchown ''/dst'' 1000 1000,
                   Chmod ''/dst'' (S_IFDIR OR 0x1ED)],
               Some (n_stat (node_with (S_IFDIR OR 0x1ED) 1000 77)))
   \<and> map_option (\<lambda>r. (fst r, syscalls_of (trace (snd r))))
        (move_roots 3 posix (mover True) (start dir_world))
       = Some (- errno_code ENOENT,
               [Umask 0, Lstat ''/src'', Opendir ''/src'', Readdir ''/src'',
                Utimes ''/dst'' (77, 0) (77, 0), Lchown ''/dst'' 1000 1000])"
  by code_simp

subsection \<open>The remapper's descriptors\<close>

lemma is_open_extents_loop_runs_through:
  "is_open_extents_loop io ws i = i + length ws"
  by (induction ws arbitrary: i) simp_all

lemma is_open_extents_iff: "is_open_extents io \<longleftrightarrow> dev_length io \<noteq> 0"
  by (simp add: is_open_extents_def is_open_extents_loop_runs_through)

text \<open>
  C7 (the code departs from the claim). The claim: with a nonzero device length,
  \<open>is_open_extents\<close> is true exactly when both the LOOP-FILE and the ZERO-FILE descriptor
  are open, and \<open>read_extents\<close> fails with the not-open error when either is closed.
  The code: the test \<open>!is_open0(which[i]) < 0\<close> compares 0 or 1 with 0 and never holds, so
  with device length 4096 and both descriptors closed \<open>is_open_extents\<close> is true, and
  \<open>read_extents\<close> goes on to the extent reader with descriptor \<open>-1\<close> and returns the
  reader's \<open>EBADF\<close> instead of \<open>ENOTCONN\<close>.
\<close>

theorem C7_is_open_extents_ignores_descriptors:
  "\<not> is_open0 (io_closed 4096) FC_LOOP_FILE \<and> \<not> is_open0 (io_closed 4096) FC_ZERO_FILE
   \<and> is_open_extents (io_closed 4096)
   \<and> fst (read_extents rd_badf (io_closed 4096) [] [] 0) = errno_code EBADF
   \<and> fst (read_extents rd_badf (io_closed 4096) [] [] 0) \<noteq> errno_code ENOTCONN"
  by (simp add: is_open_extents_iff read_extents_def is_open0_def io_closed_def rd_badf_def)

subsection \<open>Storage\<close>



lemma errno_code_nonzero: "errno_code e \<noteq> 0"
  using errno_code_pos [of e] by simp










lemma close_storage_calls:
  "syscalls_of (trace (snd (close_storage K io s)))
     = syscalls_of (trace s)
       @ (case storage_mmap io of Some base \<Rightarrow> [Munmap base (storage_mmap_size io)] | None \<Rightarrow> [])
       @ (if fd io FC_PRIMARY_STORAGE \<ge> 0 then [Close (fd io FC_PRIMARY_STORAGE)] else [])"
  by (auto simp add: close_storage_def close0_def sys_def ff_log_def Let_def syscalls_of_append
      syscalls_of_simps split: prod.splits option.splits)



text \<open>
  C5 (the code departs from the claim). The claim: successful creation leaves
  \<open>job_dir + ".storage"\<close> with exactly \<open>secondary_length\<close> zero bytes, by the fallocate
  primitive or else by writes of zero bytes. The code: the buffer \<open>zero\<close> of the fallback
  is never initialised. Built without \<open>FT_HAVE_POSIX_FALLOCATE\<close>, with \<open>0xAA\<close> on the stack
  and length 3, the function succeeds and the file holds three bytes \<open>0xAA\<close>. Built with
  it, on a kernel where \<open>posix_fallocate\<close> fails, the fallback writes the file (here zero
  bytes) but \<open>err\<close> keeps the error of \<open>posix_fallocate\<close>: the function removes the file
  again and returns that error.
\<close>

theorem C5_fallback_writes_uninitialised_buffer:
  "(case create_secondary_storage 10 posix False (\<lambda>_. 0xAA) (io_dev []) 3 (start dev_world) of
      None \<Rightarrow> None
    | Some (err, io', s') \<Rightarrow>
        Some (err, ext_length (secondary_storage io'), syscalls_of (trace s'),
              map_option n_data (nodes (world s') storage_path)))
     = Some (0, 3,
             [Open storage_path (O_RDWR OR O_CREAT OR O_TRUNC) 0x180, Write 4 [0xAA, 0xAA, 0xAA]],
             Some [0xAA, 0xAA, 0xAA])
   \<and> (case create_secondary_storage 10 posix_no_fallocate True (\<lambda>_. 0) (io_dev []) 3
            (start dev_world) of
        None \<Rightarrow> None
      | Some (err, io', s') \<Rightarrow>
          Some (err, syscalls_of (trace s'), nodes (world s') storage_path))
     = Some (errno_code EOPNOTSUPP,
             [Open storage_path (O_RDWR OR O_CREAT OR O_TRUNC) 0x180, Posix_fallocate 4 0 3,
              Write 4 [0, 0, 0], Unlink storage_path],
             None)"
  by code_simp

text \<open>
  C4 (the code departs from the claim). The claim: every failure of \<open>create_storage\<close>
  after the reservation unmaps the whole reservation and unlinks the secondary file if
  it was created. The code unwinds with \<open>close_storage\<close>, which unmaps the reservation,
  closes the slot of the primary storage and never calls \<open>unlink\<close> (lemma
  \<open>close_storage_calls\<close>). With a primary extent at the unaligned offset 512 the
  \<open>MAP_FIXED\<close> mapping fails with \<open>EINVAL\<close>; on the kernel that moves mappings the code sees
  another address and fails with \<open>EFAULT\<close>. Both times the reservation of 4112 bytes is
  unmapped, and the secondary file of 16 bytes is still there with its descriptor 4
  open.
\<close>

theorem C4_unwind_keeps_secondary_file:
  "(case create_storage 10 posix True (\<lambda>_. 0) (io_dev [extent 512 0 4096]) 16 (start dev_world) of
      None \<Rightarrow> None
    | Some (err, io', s') \<Rightarrow>
        Some (err, syscalls_of (trace s'), storage_mmap io', fd io' FC_SECONDARY_STORAGE,
              map_option n_data (nodes (world s') storage_path), fds (world s') 4))
     = Some (- errno_code EINVAL,
             [Mmap 0 4112 PROT_NONE (MAP_PRIVATE OR MAP_ANONYMOUS) (- 1) 0,
              Open storage_path (O_RDWR OR O_CREAT OR O_TRUNC) 0x180,
              Posix_fallocate 4 0 16,
              Munmap 0x7F0000000000 4096,
              Mmap 0x7F0000000000 4096 (PROT_READ OR PROT_WRITE) (MAP_SHARED OR MAP_FIXED) 3 512,
              Munmap 0x7F0000000000 4112],
             None, 4, Some (replicate 16 0), Some (storage_path, 0))
   \<and> (case create_storage 10 posix_map_moves True (\<lambda>_. 0) (io_dev [extent 8192 0 4096]) 16
            (start dev_world) of
        None \<Rightarrow> None
      | Some (err, io', s') \<Rightarrow>
          Some (err, syscalls_of (trace s'), storage_mmap io', fd io' FC_SECONDARY_STORAGE,
                map_option n_data (nodes (world s') storage_path), fds (world s') 4))
     = Some (- errno_code EFAULT,
             [Mmap 0 4112 PROT_NONE (MAP_PRIVATE OR MAP_ANONYMOUS) (- 1) 0,
              Open storage_path (O_RDWR OR O_CREAT OR O_TRUNC) 0x180,
              Posix_fallocate 4 0 16,
              Munmap 0x7F0000000000 4096,
              Mmap 0x7F0000000000 4096 (PROT_READ OR PROT_WRITE) (MAP_SHARED OR MAP_FIXED) 3 8192,
              Munmap 0x7F0000001000 4096,
              Munmap 0x7F0000000000 4112],
             None, 4, Some (replicate 16 0), Some (storage_path, 0))"
  by code_simp

subsection \<open>The remap tool's command line\<close>

text \<open>
  What \<open>main\<close> does with each argument count. With the single argument \<open>--help\<close> it prints
  the usage line to stdout and returns 0. With no, one or two positional arguments
  otherwise it prints the message that names the missing arguments and the hint at
  \<open>--help\<close> to stderr, returns 1 and starts no stage. With three or more positional
  arguments it runs \<open>init_job\<close>, \<open>init_io_posix\<close> on the first three and \<open>run\<close>, stopping at
  the first that fails and returning its error.
\<close>

lemma main_command_line:
  "(argv = [p, ''--help''] \<longrightarrow>
      main env argv
        = (0, [Print_stdout (''Usage: '' @ p @ '' device loop-file zero-file'' @ [CHR 0x0A])]))
   \<and> (length argv \<le> 1 \<longrightarrow>
        main env argv
          = (1, [Print_stderr ''missing arguments: device loop-file zero-file'',
                 Print_stderr (''Try `'' @ argv_at argv 0 @ '' --help' for more information''
                               @ [CHR 0x0A])]))
   \<and> (length argv = 2 \<and> argv ! 1 \<noteq> ''--help'' \<longrightarrow>
        main env argv
          = (1, [Print_stderr ''missing arguments: loop-file zero-file'',
                 Print_stderr (''Try `'' @ argv ! 0 @ '' --help' for more information''
                               @ [CHR 0x0A])]))
   \<and> (length argv = 3 \<longrightarrow>
        main env argv
          = (1, [Print_stderr ''missing argument: zero-file'',
                 Print_stderr (''Try `'' @ argv ! 0 @ '' --help' for more information''
                               @ [CHR 0x0A])]))
   \<and> (4 \<le> length argv \<longrightarrow>
        main env argv
          = (let paths = take 3 (drop 1 argv) in
             if init_job_result env \<noteq> 0 then (init_job_result env, [Call_init_job])
             else if init_io_posix_result env paths \<noteq> 0 then
               (init_io_posix_result env paths, [Call_init_job, Call_init_io_posix paths])
             else (run_result env, [Call_init_job, Call_init_io_posix paths, Call_run])))"
  by (auto simp add: main_def init_def usage_def invalid_cmdline_def check_is_closed_def
      is_initialized_def quit_def ff_vfail_def label_def argv_at_def Let_def)

lemma main_command_line_runs:
  "main env_ok [''fsremap'', ''--help'']
     = (0, [Print_stdout (''Usage: fsremap device loop-file zero-file'' @ [CHR 0x0A])])
   \<and> main env_ok [''fsremap'']
     = (1, [Print_stderr ''missing arguments: device loop-file zero-file'',
            Print_stderr (''Try `fsremap --help' for more information'' @ [CHR 0x0A])])
   \<and> main env_ok [''fsremap'', ''/dev/sdb1'']
     = (1, [Print_stderr ''missing arguments: loop-file zero-file'',
            Print_stderr (''Try `fsremap --help' for more information'' @ [CHR 0x0A])])
   \<and> main env_ok [''fsremap'', ''/dev/sdb1'', ''loop'']
     = (1, [Print_stderr ''missing argument: zero-file'',
            Print_stderr (''Try `fsremap --help' for more information'' @ [CHR 0x0A])])
   \<and> main env_ok [''fsremap'', ''/dev/sdb1'', ''loop'', ''zero'']
     = (0, [Call_init_job, Call_init_io_posix [''/dev/sdb1'', ''loop'', ''zero''], Call_run])"
  using main_command_line [of "[''fsremap'', ''--help'']" "''fsremap''" env_ok]
    main_command_line [of "[''fsremap'']" "''fsremap''" env_ok]
    main_command_line [of "[''fsremap'', ''/dev/sdb1'']" "''fsremap''" env_ok]
    main_command_line [of "[''fsremap'', ''/dev/sdb1'', ''loop'']" "''fsremap''" env_ok]
    main_command_line [of "[''fsremap'', ''/dev/sdb1'', ''loop'', ''zero'']" "''fsremap''" env_ok]
  by (simp add: env_ok_def argv_at_def)

text \<open>
  C1 (the code departs from the claim). The claim: the tool takes exactly three
  positional arguments, and any other argument count prints a usage error to stderr,
  hints at \<open>--help\<close> and returns 1; the comment of \<open>main\<close> says the same of the code, that
  it expects \<open>argc == 4\<close>. The code: \<open>init\<close> tests \<open>argc <= 1\<close>, \<open>argc <= 2\<close> and \<open>argc <= 3\<close>
  and nothing above. Called with the four positional arguments \<open>/dev/sdb1 loop zero
  extra\<close> (\<open>argc\<close> is 5) and every stage succeeding, \<open>main\<close> runs \<open>init_job\<close>, \<open>init_io_posix\<close>
  on the first three arguments and \<open>run\<close>, prints nothing to stderr and returns 0; the
  fourth argument is dropped without a word.
\<close>

theorem C1_surplus_arguments_accepted:
  "length [''fsremap'', ''/dev/sdb1'', ''loop'', ''zero'', ''extra''] = 5
   \<and> main env_ok [''fsremap'', ''/dev/sdb1'', ''loop'', ''zero'', ''extra'']
       = (0, [Call_init_job, Call_init_io_posix [''/dev/sdb1'', ''loop'', ''zero''], Call_run])
   \<and> fst (main env_ok [''fsremap'', ''/dev/sdb1'', ''loop'', ''zero'', ''extra'']) \<noteq> 1
   \<and> filter is_stderr (snd (main env_ok [''fsremap'', ''/dev/sdb1'', ''loop'', ''zero'', ''extra''])) = []"
  by (simp add: env_ok_def argv_at_def main_def init_def invalid_cmdline_def check_is_closed_def
      is_initialized_def quit_def ff_vfail_def label_def Let_def is_stderr_def)

subsection \<open>The hole zeroer\<close>

lemma dev_write_zeros_mem:
  "d_mem (dev_write (take k (replicate n 0)) w) b
     = (if d_pos w \<le> b \<and> b < d_pos w + min k n then 0 else d_mem w b)"
  by (auto simp add: dev_write_def min_def)

lemma dev_write_zeros_pos:
  "d_pos (dev_write (replicate n 0) w) = d_pos w + n"
  by (simp add: dev_write_def)

lemma write_all_cases:
  assumes "sys_ret dev_kernel (Write_all d (replicate n 0)) s = (r, s1)"
  obtains (ok) "r = Done" "d_faults (world s) = [] \<or> (\<exists>fs. d_faults (world s) = None # fs)"
      "d_faults (world s1) = tl (d_faults (world s))"
      "d_pos (world s1) = d_pos (world s) + n"
      "\<And>b. d_mem (world s1) b
         = (if d_pos (world s) \<le> b \<and> b < d_pos (world s) + n then 0 else d_mem (world s) b)"
    | (failed) e k fs where "r = Fail e" "d_faults (world s) = Some (e, k) # fs"
      "\<And>b. d_mem (world s1) b
         = (if d_pos (world s) \<le> b \<and> b < d_pos (world s) + min k n then 0
            else d_mem (world s) b)"
proof (cases "d_faults (world s)")
  case Nil
  with assms have "r = Done" and w: "world s1 = dev_write (replicate n 0) (world s)"
    by (auto simp add: sys_ret_def next_fault_def)
  show ?thesis
  proof (rule ok)
    show "r = Done" by fact
    show "d_faults (world s) = [] \<or> (\<exists>fs. d_faults (world s) = None # fs)" using Nil by simp
    show "d_faults (world s1) = tl (d_faults (world s))" using Nil w by (simp add: dev_write_def)
    show "d_pos (world s1) = d_pos (world s) + n" using w by (simp add: dev_write_zeros_pos)
    show "\<And>b. d_mem (world s1) b
         = (if d_pos (world s) \<le> b \<and> b < d_pos (world s) + n then 0 else d_mem (world s) b)"
      using w dev_write_zeros_mem [of n n "world s"] by simp
  qed
next
  case (Cons f fs)
  show ?thesis
  proof (cases f)
    case None
    with Cons assms have "r = Done"
      and w: "world s1 = dev_write (replicate n 0) ((world s)\<lparr> d_faults := fs \<rparr>)"
      by (auto simp add: sys_ret_def next_fault_def)
    show ?thesis
    proof (rule ok)
      show "r = Done" by fact
      show "d_faults (world s) = [] \<or> (\<exists>fs. d_faults (world s) = None # fs)"
        using Cons None by simp
      show "d_faults (world s1) = tl (d_faults (world s))"
        using Cons w by (simp add: dev_write_def)
      show "d_pos (world s1) = d_pos (world s) + n" using w by (simp add: dev_write_zeros_pos)
      show "\<And>b. d_mem (world s1) b
           = (if d_pos (world s) \<le> b \<and> b < d_pos (world s) + n then 0 else d_mem (world s) b)"
        using w dev_write_zeros_mem [of n n "(world s)\<lparr> d_faults := fs \<rparr>"] by simp
    qed
  next
    case (Some ek)
    obtain e k where ek: "ek = (e, k)" by (cases ek)
    with Some Cons assms have "r = Fail e"
      and w: "world s1 = dev_write (take k (replicate n 0)) ((world s)\<lparr> d_faults := fs \<rparr>)"
      by (auto simp add: sys_ret_def next_fault_def)
    show ?thesis
    proof (rule failed)
      show "r = Fail e" by fact
      show "d_faults (world s) = Some (e, k) # fs" using Cons Some ek by simp
      show "\<And>b. d_mem (world s1) b
           = (if d_pos (world s) \<le> b \<and> b < d_pos (world s) + min k n then 0
              else d_mem (world s) b)"
        using w dev_write_zeros_mem [of k n "(world s)\<lparr> d_faults := fs \<rparr>"] by simp
    qed
  qed
qed

lemma ff_log_world: "world (snd (ff_log lvl e s)) = world s"
  by (simp add: ff_log_def)

lemma zero_write_loop_dev:
  assumes "zero_write_loop dev_kernel d left err s = (err', s')"
  shows "(\<forall>b. d_mem (world s') b = d_mem (world s) b
              \<or> (d_mem (world s') b = 0 \<and> d_pos (world s) \<le> b
                  \<and> b < d_pos (world s) + unat left))
       \<and> (d_faults (world s) = [] \<longrightarrow>
             d_faults (world s') = [] \<and> err' = (if left = 0 then err else 0)
             \<and> (\<forall>b. d_pos (world s) \<le> b \<and> b < d_pos (world s) + unat left
                     \<longrightarrow> d_mem (world s') b = 0))"
  using assms
proof (induction "dev_kernel" d left err s arbitrary: err' s' rule: zero_write_loop.induct)
  case (1 d left err s)
  show ?case
  proof (cases "left = 0")
    case True
    with "1.prems" show ?thesis by auto
  next
    case False
    define chunk where "chunk = min left ZERO_BUF_LEN"
    have chunk_le: "unat chunk \<le> unat left"
      by (simp add: chunk_def word_le_nat_alt [symmetric])
    have chunk_pos: "0 < unat chunk"
      using False by (auto simp add: chunk_def ZERO_BUF_LEN_def min_def unat_gt_0)
    have sub: "unat (left - chunk) = unat left - unat chunk"
      by (simp add: unat_sub chunk_def)
    obtain r s1 where w: "sys_ret dev_kernel (Write_all d (replicate (unat chunk) 0)) s = (r, s1)"
      by fastforce
    from w show ?thesis
    proof (cases rule: write_all_cases)
      case (failed e k fs)
      from "1.prems" False w failed(1) have s': "world s' = world s1"
        using ff_log_world [of FC_ERROR "fail_code r" s1]
        by (simp add: chunk_def [symmetric] errno_code_nonzero split: prod.splits)
      show ?thesis
        using failed(2,3) chunk_le by (auto simp add: s')
    next
      case ok
      from "1.prems" False w ok(1)
      have rec: "zero_write_loop dev_kernel d (left - chunk) 0 s1 = (err', s')"
        by (simp add: chunk_def [symmetric])
      have ih: "(\<forall>b. d_mem (world s') b = d_mem (world s1) b
              \<or> (d_mem (world s') b = 0 \<and> d_pos (world s1) \<le> b
                  \<and> b < d_pos (world s1) + unat (left - chunk)))
       \<and> (d_faults (world s1) = [] \<longrightarrow>
             d_faults (world s') = [] \<and> err' = (if left - chunk = 0 then 0 else 0)
             \<and> (\<forall>b. d_pos (world s1) \<le> b \<and> b < d_pos (world s1) + unat (left - chunk)
                     \<longrightarrow> d_mem (world s') b = 0))"
        using "1.hyps" [OF False chunk_def w [symmetric] _ rec] ok(1) by simp
      have safety: "\<forall>b. d_mem (world s') b = d_mem (world s) b
              \<or> (d_mem (world s') b = 0 \<and> d_pos (world s) \<le> b
                  \<and> b < d_pos (world s) + unat left)"
      proof
        fix b
        from ih have "d_mem (world s') b = d_mem (world s1) b
              \<or> (d_mem (world s') b = 0 \<and> d_pos (world s1) \<le> b
                  \<and> b < d_pos (world s1) + unat (left - chunk))"
          by blast
        then show "d_mem (world s') b = d_mem (world s) b
              \<or> (d_mem (world s') b = 0 \<and> d_pos (world s) \<le> b
                  \<and> b < d_pos (world s) + unat left)"
          using ok(4) ok(5) [of b] sub chunk_le by (auto split: if_splits)
      qed
      have complete: "d_faults (world s) = [] \<longrightarrow>
             d_faults (world s') = [] \<and> err' = (if left = 0 then err else 0)
             \<and> (\<forall>b. d_pos (world s) \<le> b \<and> b < d_pos (world s) + unat left
                     \<longrightarrow> d_mem (world s') b = 0)"
      proof
        assume nf: "d_faults (world s) = []"
        with ok(3) have nf1: "d_faults (world s1) = []" by simp
        with ih have a: "d_faults (world s') = []" and b: "err' = 0"
          and c: "\<forall>b. d_pos (world s1) \<le> b \<and> b < d_pos (world s1) + unat (left - chunk)
                     \<longrightarrow> d_mem (world s') b = 0"
          by simp_all
        have "\<forall>b. d_pos (world s) \<le> b \<and> b < d_pos (world s) + unat left
                     \<longrightarrow> d_mem (world s') b = 0"
        proof (intro allI impI)
          fix b
          assume rng: "d_pos (world s) \<le> b \<and> b < d_pos (world s) + unat left"
          show "d_mem (world s') b = 0"
          proof (cases "b < d_pos (world s) + unat chunk")
            case True
            with rng ok(5) [of b] have "d_mem (world s1) b = 0" by simp
            with ih show ?thesis by metis
          next
            case False
            with rng c ok(4) sub chunk_le show ?thesis by simp
          qed
        qed
        with a b False show "d_faults (world s') = [] \<and> err' = (if left = 0 then err else 0)
             \<and> (\<forall>b. d_pos (world s) \<le> b \<and> b < d_pos (world s) + unat left
                     \<longrightarrow> d_mem (world s') b = 0)"
          by simp
      qed
      from safety complete show ?thesis by blast
    qed
  qed
qed

lemma lseek_dev:
  assumes "sys_ret dev_kernel (Lseek d off) s = (r, s1)"
  shows "d_mem (world s1) = d_mem (world s)"
    and "fail_code r = 0 \<Longrightarrow> d_pos (world s1) = unat off"
    and "d_faults (world s) = [] \<Longrightarrow> fail_code r = 0 \<and> d_faults (world s1) = []"
  using assms
  by (auto simp add: sys_ret_def next_fault_def errno_code_nonzero
      split: list.splits option.splits prod.splits)

lemma holes_bytes_simps:
  "holes_bytes log2 [] = {}"
  "holes_bytes log2 (h # hs) = hole_bytes log2 h \<union> holes_bytes log2 hs"
  by (simp_all add: holes_bytes_def)

lemma zero_holes_dev:
  assumes "zero_holes dev_kernel d log2 holes err s = (err', s')"
  shows "(\<forall>b. d_mem (world s') b = d_mem (world s) b
              \<or> (d_mem (world s') b = 0 \<and> b \<in> holes_bytes log2 holes))
       \<and> (d_faults (world s) = [] \<longrightarrow>
             d_faults (world s') = [] \<and> (err = 0 \<longrightarrow> err' = 0)
             \<and> (\<forall>b. b \<in> holes_bytes log2 holes \<longrightarrow> d_mem (world s') b = 0))"
  using assms
proof (induction holes arbitrary: err s)
  case Nil
  then show ?case by (auto simp add: holes_bytes_simps)
next
  case (Cons h hs)
  define offset where "offset = push_bit (unat log2) (physical h)"
  define left where "left = push_bit (unat log2) (ext_length h)"
  have hb: "hole_bytes log2 h = {b. unat offset \<le> b \<and> b < unat offset + unat left}"
    by (simp add: hole_bytes_def offset_def left_def)
  obtain r s1 where sk: "sys_ret dev_kernel (Lseek d offset) s = (r, s1)"
    by fastforce
  note lk = lseek_dev [OF sk]
  show ?case
  proof (cases "fail_code r = 0")
    case False
    with Cons.prems sk have "world s' = world s1"
      using ff_log_world [of FC_ERROR "fail_code r" s1]
      by (simp add: offset_def [symmetric] left_def [symmetric] split: prod.splits)
    with lk False show ?thesis by auto
  next
    case True
    obtain err1 s2 where zw: "zero_write_loop dev_kernel d left 0 s1 = (err1, s2)"
      by fastforce
    from Cons.prems sk True zw have rec: "zero_holes dev_kernel d log2 hs err1 s2 = (err', s')"
      by (simp add: offset_def [symmetric] left_def [symmetric])
    note ih = Cons.IH [OF rec]
    note zl = zero_write_loop_dev [OF zw]
    have pos1: "d_pos (world s1) = unat offset" using lk(2) True by simp
    have safety: "\<forall>b. d_mem (world s') b = d_mem (world s) b
              \<or> (d_mem (world s') b = 0 \<and> b \<in> holes_bytes log2 (h # hs))"
    proof
      fix b
      from ih have a: "d_mem (world s') b = d_mem (world s2) b
              \<or> (d_mem (world s') b = 0 \<and> b \<in> holes_bytes log2 hs)" by blast
      from zl have b: "d_mem (world s2) b = d_mem (world s1) b
              \<or> (d_mem (world s2) b = 0 \<and> d_pos (world s1) \<le> b
                  \<and> b < d_pos (world s1) + unat left)" by blast
      from a b show "d_mem (world s') b = d_mem (world s) b
              \<or> (d_mem (world s') b = 0 \<and> b \<in> holes_bytes log2 (h # hs))"
        using lk(1) pos1 by (auto simp add: holes_bytes_simps hb)
    qed
    have complete: "d_faults (world s) = [] \<longrightarrow>
             d_faults (world s') = [] \<and> (err = 0 \<longrightarrow> err' = 0)
             \<and> (\<forall>b. b \<in> holes_bytes log2 (h # hs) \<longrightarrow> d_mem (world s') b = 0)"
    proof
      assume nf: "d_faults (world s) = []"
      with lk(3) have nf1: "d_faults (world s1) = []" by simp
      with zl have nf2: "d_faults (world s2) = []" and e1: "err1 = 0"
        and z: "\<forall>b. d_pos (world s1) \<le> b \<and> b < d_pos (world s1) + unat left
                     \<longrightarrow> d_mem (world s2) b = 0"
        by simp_all
      from ih nf2 e1 have nf': "d_faults (world s') = []" and e': "err' = 0"
        and zr: "\<forall>b. b \<in> holes_bytes log2 hs \<longrightarrow> d_mem (world s') b = 0"
        by simp_all
      have "\<forall>b. b \<in> holes_bytes log2 (h # hs) \<longrightarrow> d_mem (world s') b = 0"
      proof (intro allI impI)
        fix b
        assume "b \<in> holes_bytes log2 (h # hs)"
        then consider "b \<in> hole_bytes log2 h" | "b \<in> holes_bytes log2 hs"
          by (auto simp add: holes_bytes_simps)
        then show "d_mem (world s') b = 0"
        proof cases
          case 1
          with z pos1 hb have "d_mem (world s2) b = 0" by simp
          with ih show ?thesis by metis
        next
          case 2
          with zr show ?thesis by simp
        qed
      qed
      with nf' e' show "d_faults (world s') = [] \<and> (err = 0 \<longrightarrow> err' = 0)
             \<and> (\<forall>b. b \<in> holes_bytes log2 (h # hs) \<longrightarrow> d_mem (world s') b = 0)"
        by simp
    qed
    from safety complete show ?thesis by blast
  qed
qed

lemma ctz_loop_returns:
  "b \<noteq> 0 \<Longrightarrow> \<exists>k. ctz_loop b n = Some k"
proof (induction "unat b" arbitrary: b n rule: less_induct)
  case less
  show ?case
  proof (cases "b AND 1 = 0")
    case False
    then show ?thesis by (subst ctz_loop.simps) simp
  next
    case True
    then have "b mod 2 = 0" by (simp add: and_one_eq)
    then have ev_nat: "unat b mod 2 = 0" using unat_mod [of b 2] by simp
    have nz: "unat b \<noteq> 0" using less.prems by (simp add: unat_eq_zero)
    have half: "unat (drop_bit 1 b) = unat b div 2"
      using unat_div [of b 2] by (simp add: drop_bit_eq_div)
    from ev_nat nz have "unat b div 2 \<noteq> 0" by arith
    with half have nz': "drop_bit 1 b \<noteq> 0" by (metis unat_eq_zero)
    from nz half have "unat (drop_bit 1 b) < unat b" by simp
    from less.hyps [OF this nz', of "n + 1"] obtain k where
      "ctz_loop (drop_bit 1 b) (n + 1) = Some k" by blast
    with True show ?thesis by (subst ctz_loop.simps) simp
  qed
qed

lemma eff_block_size_log2_of_returns: "\<exists>k. eff_block_size_log2_of bitmask = Some k"
  using ctz_loop_returns [of bitmask 0] by (auto simp add: eff_block_size_log2_of_def)

lemma sys_dev_world:
  "world (snd (sys dev_kernel (Open p fl m) s)) = world s"
  "world (snd (sys dev_kernel (Fopen p) s)) = world s"
  "world (snd (sys dev_kernel (Fclose f) s)) = world s"
  "world (snd (sys dev_kernel (Close f) s)) = world s"
  by (simp_all add: sys_def)

lemma finish_zero_dev:
  "finish_zero dev_kernel f d (err, s) = (err', s') \<Longrightarrow> err' = err \<and> world s' = world s"
  by (auto simp add: finish_zero_def Let_def sys_dev_world split: option.splits if_splits)

lemma zeroer_run:
  assumes "eff_block_size_log2_of (snd (d_save w)) = Some log2"
  shows "ff_zero_loop_file_holes dev_kernel argv (start w)
     = Some (finish_zero dev_kernel (Some 4) 3
         (zero_holes dev_kernel 3 log2
            (complement0_logical_shift (fst (d_save w)) log2 (d_len w)) 0
            \<lparr> trace = [Sys (Open (argv_at argv 1) O_RDWR 0), Sys (Blkdev_size 3),
                        Sys (Fopen (argv_at argv 2)), Sys (Load_extents 4), Log FC_INFO 0],
               cur_errno = 0, world = w \<rparr>))"
  using assms
  by (simp add: ff_zero_loop_file_holes_def sys_def sys_ret_def start_def ff_log_def Let_def
      case_prod_beta)

text \<open>When both size queries fail, the zeroer logs a warning with the error of the first
  and returns the negated error of the second, having closed the device.\<close>

lemma zeroer_size_queries_fail:
  fixes K :: "'w kernel"
  assumes "K (Open (argv_at argv 1) O_RDWR 0) (world s) = (Ret_fd d, w1)"
    and "K (Blkdev_size (int d)) w1 = (Fail e1, w2)"
    and "K (Fstat_size (int d)) w2 = (Fail e2, w3)"
  shows "\<exists>s'. ff_zero_loop_file_holes K argv s = Some (- errno_code e2, s')
     \<and> trace s'
         = trace s @ [Sys (Open (argv_at argv 1) O_RDWR 0), Sys (Blkdev_size (int d)),
                      Log FC_WARN (errno_code e1), Sys (Fstat_size (int d)),
                      Log FC_ERROR (errno_code e2), Sys (Close (int d))]"
  using assms errno_code_pos [of e1] errno_code_pos [of e2]
  by (simp add: ff_zero_loop_file_holes_def sys_def ff_log_def finish_zero_def Let_def
      split: prod.splits)

lemma covered_by_simps:
  "covered_by [] k = False"
  "covered_by (x # xs) k = ((fst x \<le> k \<and> k < fst x + snd x) \<or> covered_by xs k)"
  by (auto simp add: covered_by_def)

lemma in_gaps_simps:
  "in_gaps [] k = False"
  "in_gaps (g # gs) k = ((fst g \<le> k \<and> k < fst g + snd g) \<or> in_gaps gs k)"
  by (auto simp add: in_gaps_def)

lemma gaps_bounds: "g \<in> set (gaps xs c t) \<Longrightarrow> fst g + snd g \<le> t"
  by (induction xs c t rule: gaps.induct) (auto split: if_splits)

lemma gaps_blocks:
  "sorted (map fst xs) \<Longrightarrow> in_gaps (gaps xs c t) k \<longleftrightarrow> (c \<le> k \<and> k < t \<and> \<not> covered_by xs k)"
proof (induction xs c t rule: gaps.induct)
  case (1 c t)
  then show ?case by (auto simp add: in_gaps_simps covered_by_simps)
next
  case (2 lo len rest c t)
  from "2.prems" have srt: "sorted (map fst rest)" and ge: "\<forall>x \<in> set rest. lo \<le> fst x"
    by auto
  have below: "k < lo \<Longrightarrow> \<not> covered_by rest k"
    using ge by (auto simp add: covered_by_def)
  show ?case
  proof (cases "c < lo \<and> c < t")
    case True
    with "2.IH"(1) [OF True srt] below show ?thesis
      by (auto simp add: in_gaps_simps covered_by_simps)
  next
    case False
    with "2.IH"(2) [OF False srt] show ?thesis
      by (auto simp add: in_gaps_simps covered_by_simps)
  qed
qed

lemma unat_drop_bit_div: "unat (drop_bit n (x :: ft_uoff)) = unat x div 2 ^ n"
  unfolding unat_drop_bit_eq by (simp add: drop_bit_eq_div)

lemma unat_push_bit_of_nat:
  assumes "a * 2 ^ n \<le> unat (tot :: ft_uoff)"
  shows "unat (push_bit n (of_nat a :: ft_uoff)) = a * 2 ^ n"
proof -
  have lt: "unat tot < 2 ^ 64" using unsigned_less [of tot] by simp
  have "a \<le> a * 2 ^ n" by simp
  with assms lt have a: "a < 2 ^ 64" by linarith
  have "unat (push_bit n (of_nat a :: ft_uoff))
      = take_bit 64 (push_bit n (unat (of_nat a :: ft_uoff)))"
    by (simp only: unsigned_push_bit_eq) simp
  also have "unat (of_nat a :: ft_uoff) = a"
    using a by (simp add: unat_of_nat)
  also have "take_bit 64 (push_bit n a) = (a * 2 ^ n) mod 2 ^ 64"
    by (simp only: push_bit_eq_mult take_bit_eq_mod)
  also have "\<dots> = a * 2 ^ n" using assms lt by simp
  finally show ?thesis .
qed

lemma hole_bytes_hole_extent:
  assumes "fst g + snd g \<le> unat (tot :: ft_uoff) div 2 ^ unat log2"
  shows "b \<in> hole_bytes log2 (hole_extent g)
     \<longleftrightarrow> fst g \<le> b div 2 ^ unat log2 \<and> b div 2 ^ unat log2 < fst g + snd g"
proof -
  define n where "n = unat log2"
  define a where "a = fst g"
  define m where "m = snd g"
  have T: "(a + m) * 2 ^ n \<le> unat tot"
  proof -
    have "(a + m) * 2 ^ n \<le> (unat tot div 2 ^ n) * 2 ^ n"
      using assms by (simp add: a_def m_def n_def)
    also have "\<dots> \<le> unat tot" by simp
    finally show ?thesis .
  qed
  have "a * 2 ^ n \<le> (a + m) * 2 ^ n" by simp
  with T have Ta: "a * 2 ^ n \<le> unat tot" by linarith
  have "m * 2 ^ n \<le> (a + m) * 2 ^ n" by simp
  with T have Tm: "m * 2 ^ n \<le> unat tot" by linarith
  have pa: "unat (push_bit n (of_nat a :: ft_uoff)) = a * 2 ^ n"
    by (rule unat_push_bit_of_nat [OF Ta])
  have pm: "unat (push_bit n (of_nat m :: ft_uoff)) = m * 2 ^ n"
    by (rule unat_push_bit_of_nat [OF Tm])
  have 1: "a * 2 ^ n \<le> b \<longleftrightarrow> a \<le> b div 2 ^ n"
    by (simp add: less_eq_div_iff_mult_less_eq)
  have 2: "b < a * 2 ^ n + m * 2 ^ n \<longleftrightarrow> b div 2 ^ n < a + m"
    by (simp add: div_less_iff_less_mult add_mult_distrib)
  show ?thesis
    using 1 2
    by (simp add: hole_bytes_def hole_extent_def pa pm n_def [symmetric] a_def [symmetric]
        m_def [symmetric])
qed

lemma holes_bytes_blocks:
  "b \<in> holes_bytes log2 (complement0_logical_shift exts log2 tot)
   \<longleftrightarrow> b div 2 ^ unat log2 < unat tot div 2 ^ unat log2
       \<and> (\<forall>e \<in> set exts.
             \<not> (unat (logical e) div 2 ^ unat log2 \<le> b div 2 ^ unat log2
                \<and> b div 2 ^ unat log2
                    < unat (logical e) div 2 ^ unat log2 + unat (ext_length e) div 2 ^ unat log2))"
proof -
  define n where "n = unat log2"
  define xs where "xs = sort_key fst (map (shift_extent n) exts)"
  define T where "T = unat tot div 2 ^ n"
  define gs where "gs = gaps xs 0 T"
  have holes: "complement0_logical_shift exts log2 tot = map hole_extent gs"
    by (simp add: complement0_logical_shift_def gs_def xs_def T_def n_def unat_drop_bit_div)
  have bounds: "\<And>g. g \<in> set gs \<Longrightarrow> fst g + snd g \<le> unat tot div 2 ^ unat log2"
    using gaps_bounds [of _ xs 0 T] by (simp add: gs_def T_def n_def)
  have "b \<in> holes_bytes log2 (map hole_extent gs) \<longleftrightarrow> in_gaps gs (b div 2 ^ n)"
    using hole_bytes_hole_extent [OF bounds, of _ b]
    by (auto simp add: holes_bytes_def in_gaps_def n_def)
  also have "\<dots> \<longleftrightarrow> b div 2 ^ n < T \<and> \<not> covered_by xs (b div 2 ^ n)"
    using gaps_blocks [of xs 0 T "b div 2 ^ n"] by (simp add: gs_def xs_def)
  also have "covered_by xs (b div 2 ^ n)
     \<longleftrightarrow> (\<exists>e \<in> set exts. unat (logical e) div 2 ^ n \<le> b div 2 ^ n
                \<and> b div 2 ^ n < unat (logical e) div 2 ^ n + unat (ext_length e) div 2 ^ n)"
    by (auto simp add: covered_by_def xs_def shift_extent_def unat_drop_bit_div)
  finally show ?thesis
    by (simp add: holes n_def T_def)
qed

text \<open>
  Run on the device, whatever its bytes and whichever of its seeks and writes fail, the
  zeroer returns. With the loop extents and the bitmask of the persistence file, the
  effective block size they give and the device's length, let the holes be the extents
  of \<open>complement0_logical_shift\<close>, and their bytes the ranges got by shifting each hole's
  offset and length back to bytes. Then no byte outside the holes' bytes is changed, a
  changed byte is zero, and when no seek or write fails the result is 0 and every byte
  of the holes is zero. The holes' bytes are the bytes of the device's blocks that no
  loop extent covers.
\<close>

lemma zero_loop_file_holes_effect:
  "\<exists>log2 err s'.
     eff_block_size_log2_of (snd (d_save w)) = Some log2
     \<and> ff_zero_loop_file_holes dev_kernel argv (start w) = Some (err, s')
     \<and> (\<forall>b. b \<notin> holes_bytes log2 (complement0_logical_shift (fst (d_save w)) log2 (d_len w))
              \<longrightarrow> d_mem (world s') b = d_mem w b)
     \<and> (\<forall>b. d_mem (world s') b = d_mem w b \<or> d_mem (world s') b = 0)
     \<and> (d_faults w = [] \<longrightarrow>
           err = 0
           \<and> (\<forall>b. b \<in> holes_bytes log2
                         (complement0_logical_shift (fst (d_save w)) log2 (d_len w))
                 \<longrightarrow> d_mem (world s') b = 0))
     \<and> (\<forall>b. b \<in> holes_bytes log2 (complement0_logical_shift (fst (d_save w)) log2 (d_len w))
           \<longleftrightarrow> b div 2 ^ unat log2 < unat (d_len w) div 2 ^ unat log2
               \<and> (\<forall>e \<in> set (fst (d_save w)).
                     \<not> (unat (logical e) div 2 ^ unat log2 \<le> b div 2 ^ unat log2
                        \<and> b div 2 ^ unat log2
                            < unat (logical e) div 2 ^ unat log2
                              + unat (ext_length e) div 2 ^ unat log2)))"
proof -
  obtain log2 where l: "eff_block_size_log2_of (snd (d_save w)) = Some log2"
    using eff_block_size_log2_of_returns by blast
  define holes where "holes = complement0_logical_shift (fst (d_save w)) log2 (d_len w)"
  define s6 where "s6 = \<lparr> trace = [Sys (Open (argv_at argv 1) O_RDWR 0), Sys (Blkdev_size 3),
                        Sys (Fopen (argv_at argv 2)), Sys (Load_extents 4), Log FC_INFO 0],
               cur_errno = 0, world = w \<rparr>"
  obtain err s2 where zh: "zero_holes dev_kernel 3 log2 holes 0 s6 = (err, s2)"
    by fastforce
  obtain err' s' where fin: "finish_zero dev_kernel (Some 4) 3 (err, s2) = (err', s')"
    by fastforce
  from finish_zero_dev [OF fin] have e: "err' = err" and ws: "world s' = world s2"
    by simp_all
  have run: "ff_zero_loop_file_holes dev_kernel argv (start w) = Some (err, s')"
    using zeroer_run [OF l, of argv] zh fin e by (simp add: holes_def s6_def)
  have w6: "world s6 = w" by (simp add: s6_def)
  note blocks = holes_bytes_blocks [of _ log2 "fst (d_save w)" "d_len w"]
  from zero_holes_dev [OF zh] have
    a: "\<forall>b. b \<notin> holes_bytes log2 holes \<longrightarrow> d_mem (world s') b = d_mem w b"
    and b: "\<forall>b. d_mem (world s') b = d_mem w b \<or> d_mem (world s') b = 0"
    and c: "d_faults w = [] \<longrightarrow> err = 0 \<and> (\<forall>b. b \<in> holes_bytes log2 holes \<longrightarrow> d_mem (world s') b = 0)"
    by (auto simp add: ws w6)
  show ?thesis
    apply (rule exI [of _ log2], rule exI [of _ err], rule exI [of _ s'])
    using l run a b c blocks unfolding holes_def
    by blast
qed

text \<open>With no failing call, on the spec's scenario 7: the bytes \<open>[4096, 8192)\<close> and \<open>[12288, 16384)\<close> are zeroed and
  nothing else.\<close>

lemma zero_loop_file_holes_scenario7:
  "\<exists>err s'.
     ff_zero_loop_file_holes dev_kernel [''fszero'', ''/dev/sdb1'', ''save''] (start dev7)
       = Some (err, s')
     \<and> err = 0
     \<and> (\<forall>b. d_mem (world s') b
            = (if (4096 \<le> b \<and> b < 8192) \<or> (12288 \<le> b \<and> b < 16384) then 0 else 0xFF))"
proof -
  have l: "eff_block_size_log2_of (snd (d_save dev7)) = Some 12"
    by code_simp
  have h: "complement0_logical_shift (fst (d_save dev7)) 12 (d_len dev7)
      = [extent 1 1 1, extent 3 3 1]"
    by code_simp
  have hb: "\<And>b. b \<in> holes_bytes 12 [extent 1 1 1, extent 3 3 1]
       \<longleftrightarrow> (4096 \<le> b \<and> b < 8192) \<or> (12288 \<le> b \<and> b < 16384)"
    by (auto simp add: holes_bytes_def hole_bytes_def extent_def)
  have m: "d_mem dev7 = (\<lambda>_. 0xFF)" and f: "d_faults dev7 = []"
    by (simp_all add: dev7_def)
  from zero_loop_file_holes_effect [of dev7 "[''fszero'', ''/dev/sdb1'', ''save'']"]
  obtain log2 err s' where
    "eff_block_size_log2_of (snd (d_save dev7)) = Some log2"
    and run: "ff_zero_loop_file_holes dev_kernel [''fszero'', ''/dev/sdb1'', ''save''] (start dev7)
       = Some (err, s')"
    and a: "\<forall>b. b \<notin> holes_bytes log2 (complement0_logical_shift (fst (d_save dev7)) log2 (d_len dev7))
              \<longrightarrow> d_mem (world s') b = d_mem dev7 b"
    and c: "d_faults dev7 = [] \<longrightarrow>
           err = 0
           \<and> (\<forall>b. b \<in> holes_bytes log2
                         (complement0_logical_shift (fst (d_save dev7)) log2 (d_len dev7))
                 \<longrightarrow> d_mem (world s') b = 0)"
    by blast
  with l have log2: "log2 = 12" by simp
  from a c f have "err = 0"
    and "\<forall>b. d_mem (world s') b
            = (if (4096 \<le> b \<and> b < 8192) \<or> (12288 \<le> b \<and> b < 16384) then 0 else 0xFF)"
    by (auto simp add: log2 h hb m)
  with run show ?thesis by blast
qed

text \<open>
  C9 (the code departs from the claim). The claim: the zeroer writes zero bytes to
  exactly the byte ranges of the device that no loop extent covers, every block that is
  not covered being a hole. The code: a failed \<open>ff_posix_write\<close> assigns \<open>err\<close>, logs it and
  \<open>break\<close>s, which leaves the inner \<open>while\<close> loop only; the \<open>for\<close> loop goes on with the next
  hole, and the \<open>ff_posix_lseek\<close> made for it assigns \<open>err\<close> again. On the device of four
  blocks of 4096 bytes \<open>0xFF\<close> whose loop file holds the blocks 0 and 2, the holes are the
  blocks 1 and 3. When the write into block 1 fails with \<open>EIO\<close>, the error is logged, block
  3 is zeroed, and the zeroer returns 0 although the bytes of block 1 still hold \<open>0xFF\<close>:
  the hole is not zeroed and the caller is not told.
\<close>

theorem C9_failed_write_is_swallowed:
  "complement0_logical_shift (fst (d_save dev7_write_fails)) 12 (d_len dev7_write_fails)
     = [extent 1 1 1, extent 3 3 1]
   \<and> hole_bytes 12 (extent 1 1 1) = {b. 4096 \<le> b \<and> b < 8192}
   \<and> (case ff_zero_loop_file_holes dev_kernel [''fszero'', ''/dev/sdb1'', ''save'']
              (start dev7_write_fails) of
         None \<Rightarrow> None
       | Some (err, s') \<Rightarrow> Some (err, trace s', d_mem (world s')))
       = Some (0,
               [Sys (Open ''/dev/sdb1'' O_RDWR 0), Sys (Blkdev_size 3), Sys (Fopen ''save''),
                Sys (Load_extents 4), Log FC_INFO 0,
                Sys (Lseek 3 4096), Sys (Write_all 3 (replicate 4096 0)),
                Log FC_ERROR (errno_code EIO),
                Sys (Lseek 3 12288), Sys (Write_all 3 (replicate 4096 0)),
                Sys (Fclose 4), Sys (Close 3)],
               (\<lambda>b. if 12288 \<le> b \<and> b < 16384 then 0 else 0xFF))"
proof -
  have l: "eff_block_size_log2_of (snd (d_save dev7_write_fails)) = Some 12"
    by code_simp
  have h: "complement0_logical_shift (fst (d_save dev7_write_fails)) 12 (d_len dev7_write_fails)
      = [extent 1 1 1, extent 3 3 1]"
    by code_simp
  have p: "push_bit 12 (1 :: ft_uoff) = 4096" "push_bit 12 (3 :: ft_uoff) = 12288"
    by (simp_all add: push_bit_eq_mult)
  have b: "hole_bytes 12 (extent 1 1 1) = {b. 4096 \<le> b \<and> b < 8192}"
    by (simp add: hole_bytes_def extent_def p)
  have r: "(case ff_zero_loop_file_holes dev_kernel [''fszero'', ''/dev/sdb1'', ''save'']
              (start dev7_write_fails) of
         None \<Rightarrow> None
       | Some (err, s') \<Rightarrow> Some (err, trace s', d_mem (world s')))
       = Some (0,
               [Sys (Open ''/dev/sdb1'' O_RDWR 0), Sys (Blkdev_size 3), Sys (Fopen ''save''),
                Sys (Load_extents 4), Log FC_INFO 0,
                Sys (Lseek 3 4096), Sys (Write_all 3 (replicate 4096 0)),
                Log FC_ERROR (errno_code EIO),
                Sys (Lseek 3 12288), Sys (Write_all 3 (replicate 4096 0)),
                Sys (Fclose 4), Sys (Close 3)],
               (\<lambda>b. if 12288 \<le> b \<and> b < 16384 then 0 else 0xFF))"
    unfolding zeroer_run [OF l] h
    apply (simp add: extent_def p ZERO_BUF_LEN_def sys_ret_def sys_def next_fault_def
        dev7_write_fails_def dev7_def finish_zero_def ff_log_def Let_def argv_at_def)
    apply (simp add: ZERO_BUF_LEN_def sys_ret_def sys_def next_fault_def
        finish_zero_def ff_log_def Let_def dev_write_def)
    apply (auto simp add: fun_eq_iff)
    done
  from h b r show ?thesis by simp
qed

end
